theory Spec2Isabelle
  imports Complex_Main "HOL-Library.Sublist"
begin

section \<open>Module-level configuration\<close>

text \<open>
  The experiment is configured by six module-level variables of
  \<^verbatim>\<open>binaural_experiment.py\<close> (lines 49-54). Python integers are unbounded, hence
  \<open>int\<close>; \<^verbatim>\<open>sleep_time\<close> is the float \<^verbatim>\<open>0.5\<close>, modelled as a real number.
\<close>

record config =
  relax_duration :: int
  song_duration :: int
  pause_duration :: int
  num_songs :: int
  song_directory :: string
  sleep_time :: real

definition module_globals :: config where
  "module_globals =
     \<lparr>relax_duration = 30, song_duration = 120, pause_duration = 30, num_songs = 5,
      song_directory = ''./songs'', sleep_time = 1 / 2\<rparr>"

section \<open>String formatting\<close>

text \<open>
  \<^verbatim>\<open>str(n)\<close> for a non-negative integer, and the format specification \<^verbatim>\<open>{n:03d}\<close>,
  which pads with zeros on the left up to width three and never truncates.
\<close>

definition digit_char :: "nat \<Rightarrow> char" where
  "digit_char d = ''0123456789'' ! (d mod 10)"

fun str_nat :: "nat \<Rightarrow> string" where
  "str_nat n = (if n < 10 then [digit_char n] else str_nat (n div 10) @ [digit_char n])"

declare str_nat.simps [simp del]

definition fmt_03d :: "nat \<Rightarrow> string" where
  "fmt_03d n = replicate (3 - length (str_nat n)) (CHR ''0'') @ str_nat n"

section \<open>Exceptions\<close>

text \<open>
  The exceptions of the model. \<^verbatim>\<open>FileNotFoundError\<close> is the one \<^verbatim>\<open>run\<close> raises itself
  (line 214), with its message. \<^verbatim>\<open>ValueError\<close> and \<^verbatim>\<open>OverflowError\<close> are what
  \<^verbatim>\<open>time.sleep\<close> raises on an argument that is negative or too large, and \<^verbatim>\<open>ValueError\<close>
  also what \<^verbatim>\<open>mne.create_info\<close> raises on arguments that do not fit. \<^verbatim>\<open>IndexError\<close> is
  the exception of a subscript outside a list or an array. \<^verbatim>\<open>LibraryError\<close> stands for
  any other exception that comes out of a call on a collaborator (the driver, a signal,
  the mixer, \<^verbatim>\<open>enotools\<close>, the file system, MNE), with its text; all of them derive from
  \<^verbatim>\<open>Exception\<close>.
\<close>

datatype exn =
    FileNotFoundError string
  | ValueError
  | OverflowError
  | IndexError
  | LibraryError string

section \<open>The worker's trace\<close>

text \<open>
  Every call \<^verbatim>\<open>ExperimentWorker.run\<close> makes on a collaborator and that returns is an
  event of the trace, in program order: the driver's \<^verbatim>\<open>insert_marker\<close>, \<^verbatim>\<open>time.sleep\<close>,
  the signals \<^verbatim>\<open>update_message\<close> and \<^verbatim>\<open>finished\<close>, the logger, \<^verbatim>\<open>os.path.exists\<close> and
  the calls on \<^verbatim>\<open>pygame.mixer\<close>. A call that raises leaves no event: it ends the block
  it stands in. \<^verbatim>\<open>LogError p x\<close> is \<^verbatim>\<open>logging.error\<close> on the text \<open>p\<close> followed by the
  exception \<open>x\<close> formatted. The slots the window connects to the signals run in the
  thread of the window, after the emission has returned: \<^verbatim>\<open>show_message\<close> is no part
  of the worker's trace.
\<close>

datatype event =
    InsertMarker int
  | Sleep real
  | UpdateMessage string int
  | Finished
  | LogDebug string
  | LogError string exn
  | PathExists string
  | MixerInit
  | MixerLoad string
  | MixerPlay
  | MixerStop
  | CloseWindow
  | GetBoardData

text \<open>
  What the program cannot decide: whether a file exists, and whether a call on a
  collaborator fails. \<open>fault e h c\<close> is the text of the exception with which the call
  \<open>c\<close> fails when it is made after the calls \<open>h\<close> have returned, if it fails.
\<close>

record env =
  path_exists :: "string \<Rightarrow> bool"
  fault :: "event list \<Rightarrow> event \<Rightarrow> string option"

text \<open>
  \<^verbatim>\<open>time.sleep\<close> converts its argument to a count of nanoseconds in a signed 64-bit
  integer: it raises \<^verbatim>\<open>ValueError\<close> on a negative argument and \<^verbatim>\<open>OverflowError\<close> on one
  that does not fit.
\<close>

definition time_max :: real where
  "time_max = (2 ^ 63 - 1) / 10 ^ 9"

definition in_range :: "real \<Rightarrow> bool" where
  "in_range d = (0 \<le> d \<and> d \<le> time_max)"

text \<open>
  \<^verbatim>\<open>update_message\<close> is declared \<^verbatim>\<open>pyqtSignal(str, int)\<close>: \<^verbatim>\<open>emit\<close> converts its second
  argument to a C \<^verbatim>\<open>int\<close> and raises \<^verbatim>\<open>OverflowError\<close> on a Python integer that does not
  fit.
\<close>

definition fits_int :: "int \<Rightarrow> bool" where
  "fits_int d = (- (2 ^ 31) \<le> d \<and> d < 2 ^ 31)"

text \<open>
  The exception a call raises, if it does. The logger swallows the errors of its
  handlers and \<^verbatim>\<open>os.path.exists\<close> answers \<^verbatim>\<open>False\<close> instead of raising, so these calls
  always return; every other call may fail.
\<close>

fun raises :: "env \<Rightarrow> event list \<Rightarrow> event \<Rightarrow> exn option" where
  "raises e h (Sleep d) =
     (if d < 0 then Some ValueError
      else if time_max < d then Some OverflowError
      else map_option LibraryError (fault e h (Sleep d)))"
| "raises e h (UpdateMessage m d) =
     (if \<not> fits_int d then Some OverflowError
      else map_option LibraryError (fault e h (UpdateMessage m d)))"
| "raises e h (LogDebug s) = None"
| "raises e h (LogError s x) = None"
| "raises e h (PathExists p) = None"
| "raises e h c = map_option LibraryError (fault e h c)"

text \<open>
  A block of calls made one after the other after the calls \<open>h\<close>: the calls that
  returned, and the exception of the first that did not, which ends the block.
\<close>

fun calls :: "env \<Rightarrow> event list \<Rightarrow> event list \<Rightarrow> event list \<times> exn option" where
  "calls e h [] = ([], None)"
| "calls e h (c # cs) =
     (case raises e h c of
        Some x \<Rightarrow> ([], Some x)
      | None \<Rightarrow> (case calls e (h @ [c]) cs of (t, r) \<Rightarrow> (c # t, r)))"

text \<open>
  \<^verbatim>\<open>play_song\<close> (lines 239-247): the wait of \<^verbatim>\<open>duration\<close> seconds stands inside the
  \<^verbatim>\<open>try\<close>, after \<^verbatim>\<open>init\<close>, \<^verbatim>\<open>load\<close> and \<^verbatim>\<open>play\<close>; an exception of the mixer or of the
  wait is logged and swallowed, and \<^verbatim>\<open>stop\<close> is then not called.
\<close>

definition play_song :: "env \<Rightarrow> event list \<Rightarrow> string \<Rightarrow> int \<Rightarrow> event list" where
  "play_song e h song_path duration =
     (case calls e h [MixerInit, MixerLoad song_path, MixerPlay,
                      Sleep (real_of_int duration), MixerStop] of
        (t, None) \<Rightarrow> t
      | (t, Some x) \<Rightarrow> t @ [LogError ''Error playing song: '' x])"

text \<open>The path of song \<open>i\<close> of \<^verbatim>\<open>range(num_songs)\<close> (line 212).\<close>

definition song_path :: "config \<Rightarrow> nat \<Rightarrow> string" where
  "song_path g i = song_directory g @ ''/song'' @ fmt_03d (i + 1) @ ''.mp3''"

text \<open>
  The calls of one pass of the loop body before \<^verbatim>\<open>play_song\<close> (lines 216-218) and
  after it (lines 223-229).
\<close>

definition song_start :: "config \<Rightarrow> nat \<Rightarrow> event list" where
  "song_start g i =
     [UpdateMessage (''Song '' @ str_nat (i + 1)) (song_duration g),
      InsertMarker 3,
      LogDebug (''Inserted marker 3 (Start of song '' @ str_nat (i + 1) @ '')'')]"

definition song_end :: "config \<Rightarrow> event list" where
  "song_end g =
     [Sleep (sleep_time g),
      UpdateMessage ''Relax'' (pause_duration g),
      InsertMarker 1,
      LogDebug ''Inserted marker 1 (Start of relaxation)'',
      Sleep (real_of_int (pause_duration g)),
      Sleep (sleep_time g)]"

text \<open>One pass of the loop body after the existence check has passed (lines 216-229).\<close>

definition song_phase :: "config \<Rightarrow> env \<Rightarrow> event list \<Rightarrow> nat \<Rightarrow> event list \<times> exn option" where
  "song_phase g e h i =
     (case calls e h (song_start g i) of
        (t1, Some x) \<Rightarrow> (t1, Some x)
      | (t1, None) \<Rightarrow>
          (let t2 = play_song e (h @ t1) (song_path g i) (song_duration g)
           in case calls e (h @ t1 @ t2) (song_end g) of
                (t3, r) \<Rightarrow> (t1 @ t2 @ t3, r)))"

text \<open>
  The \<^verbatim>\<open>for\<close> loop over the indices still to visit (lines 211-229): the trace it leaves
  and the exception that ended it, if one did.
\<close>

fun song_loop :: "config \<Rightarrow> env \<Rightarrow> event list \<Rightarrow> nat list \<Rightarrow> event list \<times> exn option" where
  "song_loop g e h [] = ([], None)"
| "song_loop g e h (i # is) =
     (if \<not> path_exists e (song_path g i)
      then ([PathExists (song_path g i)],
            Some (FileNotFoundError (''Song file not found: '' @ song_path g i)))
      else (case song_phase g e (h @ [PathExists (song_path g i)]) i of
              (t, Some x) \<Rightarrow> (PathExists (song_path g i) # t, Some x)
            | (t, None) \<Rightarrow>
                (case song_loop g e (h @ PathExists (song_path g i) # t) is of
                   (t', r) \<Rightarrow> (PathExists (song_path g i) # t @ t', r))))"

text \<open>The calls of lines 197-205, before the loop.\<close>

definition start_phase :: "config \<Rightarrow> event list" where
  "start_phase g =
     [InsertMarker 5,
      LogDebug ''Inserted marker 5 (Start of experiment)'',
      Sleep (sleep_time g),
      UpdateMessage ''Relax with eyes closed'' (relax_duration g),
      InsertMarker 1,
      LogDebug ''Inserted marker 1 (Start of relaxation)'',
      Sleep (real_of_int (relax_duration g)),
      Sleep (sleep_time g)]"

text \<open>
  The body of the \<^verbatim>\<open>try\<close>: \<^verbatim>\<open>range(num_songs)\<close> is empty for a negative
  \<^verbatim>\<open>num_songs\<close>.
\<close>

definition run_try :: "config \<Rightarrow> env \<Rightarrow> event list \<times> exn option" where
  "run_try g e =
     (case calls e [] (start_phase g) of
        (t, Some x) \<Rightarrow> (t, Some x)
      | (t, None) \<Rightarrow>
          (case song_loop g e t [0 ..< nat (num_songs g)] of (t', r) \<Rightarrow> (t @ t', r)))"

text \<open>
  The handler of \<^verbatim>\<open>except Exception\<close> and the \<^verbatim>\<open>finally\<close> block (lines 233-237) after
  a \<^verbatim>\<open>try\<close> body that left the trace \<open>t\<close> and ended normally or in an exception. The
  two signals of the \<^verbatim>\<open>finally\<close> block are emitted with constant arguments and return.
\<close>

definition handler :: "event list \<times> exn option \<Rightarrow> event list" where
  "handler out =
     (case out of
        (t, r) \<Rightarrow>
          t @ (case r of
                 None \<Rightarrow> []
               | Some x \<Rightarrow> [LogError ''Error in experiment: '' x])
            @ [UpdateMessage ''Experiment Complete'' 5, Finished])"

text \<open>
  The worker object: the driver handle and the six constructor arguments stored as
  attributes (lines 184-192).
\<close>

record 'b worker =
  board_shim :: 'b
  self_relax_duration :: int
  self_song_duration :: int
  self_pause_duration :: int
  self_num_songs :: int
  self_sleep_time :: real
  self_song_directory :: string

definition ExperimentWorker ::
  "'b \<Rightarrow> int \<Rightarrow> int \<Rightarrow> int \<Rightarrow> int \<Rightarrow> real \<Rightarrow> string \<Rightarrow> 'b worker" where
  "ExperimentWorker b rd sd pd n st dir =
     \<lparr>board_shim = b, self_relax_duration = rd, self_song_duration = sd,
      self_pause_duration = pd, self_num_songs = n, self_sleep_time = st,
      self_song_directory = dir\<rparr>"

text \<open>
  \<^verbatim>\<open>run\<close> (lines 194-237): \<^verbatim>\<open>try\<close>, then the handler of \<^verbatim>\<open>except Exception\<close>, then
  \<^verbatim>\<open>finally\<close>. The names \<^verbatim>\<open>sleep_time\<close>, \<^verbatim>\<open>relax_duration\<close>, ... in the body are the
  module's globals \<open>g\<close>, not attributes of \<^verbatim>\<open>self\<close>.
\<close>

definition run :: "'b worker \<Rightarrow> config \<Rightarrow> env \<Rightarrow> event list" where
  "run self g e = handler (run_try g e)"

text \<open>
  \<^verbatim>\<open>experiment_finished\<close> up to the retrieval of the buffer (lines 286-292). It is the
  slot connected to \<^verbatim>\<open>finished\<close> (line 260), so it runs once for every emission of
  the signal; an exception that leaves a slot ends the application.
\<close>

definition experiment_finished_calls :: "config \<Rightarrow> event list" where
  "experiment_finished_calls g =
     [InsertMarker 6,
      LogDebug ''Inserted marker 6 (End of experiment)'',
      Sleep (sleep_time g),
      CloseWindow,
      GetBoardData]"

fun on_finished :: "config \<Rightarrow> env \<Rightarrow> event list \<Rightarrow> nat \<Rightarrow> event list \<times> exn option" where
  "on_finished g e h 0 = ([], None)"
| "on_finished g e h (Suc n) =
     (case calls e h (experiment_finished_calls g) of
        (t, Some x) \<Rightarrow> (t, Some x)
      | (t, None) \<Rightarrow> (case on_finished g e (h @ t) n of (t', r) \<Rightarrow> (t @ t', r)))"

text \<open>
  \<^verbatim>\<open>ExperimentWindow\<close> builds the worker from the globals (line 258); a session is the
  worker's run followed by the slot, once for each \<^verbatim>\<open>finished\<close> the run emitted: its
  trace, and the exception that left the slot, if one did.
\<close>

definition session :: "'b \<Rightarrow> config \<Rightarrow> env \<Rightarrow> event list \<times> exn option" where
  "session b g e =
     (let w = ExperimentWorker b (relax_duration g) (song_duration g) (pause_duration g)
                (num_songs g) (sleep_time g) (song_directory g);
          t = run w g e
      in case on_finished g e t (length (filter (\<lambda>x. x = Finished) t)) of
           (t', r) \<Rightarrow> (t @ t', r))"


fun markers :: "event list \<Rightarrow> int list" where
  "markers [] = []"
| "markers (InsertMarker c # t) = c # markers t"
| "markers (x # t) = markers t"


fun status_events :: "event list \<Rightarrow> (string \<times> int) list" where
  "status_events [] = []"
| "status_events (UpdateMessage m d # t) = (m, d) # status_events t"
| "status_events (x # t) = status_events t"

text \<open>The kinds of status event, told apart by the text the source emits.\<close>

definition is_stimulus_status :: "string \<times> int \<Rightarrow> bool" where
  "is_stimulus_status s = (take 5 (fst s) = ''Song '')"

definition is_relax_status :: "string \<times> int \<Rightarrow> bool" where
  "is_relax_status s = (take 5 (fst s) = ''Relax'')"

definition is_complete_status :: "string \<times> int \<Rightarrow> bool" where
  "is_complete_status s = (fst s = ''Experiment Complete'')"

text \<open>
  The configurations whose waits \<^verbatim>\<open>time.sleep\<close> accepts and whose durations
  \<^verbatim>\<open>update_message\<close> can carry. The wait of \<^verbatim>\<open>song_duration\<close> is not among the
  conditions: it stands inside the \<^verbatim>\<open>try\<close> of \<^verbatim>\<open>play_song\<close>.
\<close>

definition accepted :: "config \<Rightarrow> bool" where
  "accepted g =
     (in_range (sleep_time g) \<and> in_range (real_of_int (relax_duration g))
      \<and> in_range (real_of_int (pause_duration g))
      \<and> fits_int (relax_duration g) \<and> fits_int (song_duration g)
      \<and> fits_int (pause_duration g))"

text \<open>The calls on the mixer.\<close>

fun is_mixer :: "event \<Rightarrow> bool" where
  "is_mixer MixerInit = True"
| "is_mixer (MixerLoad p) = True"
| "is_mixer MixerPlay = True"
| "is_mixer MixerStop = True"
| "is_mixer c = False"

section \<open>Buffers, the driver's layout and the conditioning library\<close>

text \<open>
  A buffer is the 2-D array of the driver: a list of rows, one per channel, each a list
  of samples. \<^verbatim>\<open>data.shape[1]\<close> is the number of columns. \<^verbatim>\<open>data[i]\<close> raises
  \<^verbatim>\<open>IndexError\<close> for a row that is not there. The rows of a 2-D array have one
  length; the type of lists does not say so, and the theorems that need it assume it.
\<close>

type_synonym buffer = "real list list"

definition shape1 :: "buffer \<Rightarrow> nat" where
  "shape1 data = (case data of [] \<Rightarrow> 0 | r # _ \<Rightarrow> length r)"

definition getitem :: "buffer \<Rightarrow> nat \<Rightarrow> exn + real list" where
  "getitem data i = (if i < length data then Inr (data ! i) else Inl IndexError)"

fun getitems :: "buffer \<Rightarrow> nat list \<Rightarrow> exn + real list list" where
  "getitems data [] = Inr []"
| "getitems data (ch # chs) =
     (case getitem data ch of
        Inl x \<Rightarrow> Inl x
      | Inr r \<Rightarrow> (case getitems data chs of Inl x \<Rightarrow> Inl x | Inr rs \<Rightarrow> Inr (r # rs)))"

text \<open>What \<^verbatim>\<open>BoardShim\<close> answers about the board: the layout of the channels.\<close>

record board =
  get_eeg_channels :: "nat list"
  get_eeg_names :: "string list"
  get_marker_channel :: nat
  get_timestamp_channel :: nat
  get_sampling_rate :: int

text \<open>
  The four functions of \<^verbatim>\<open>enotools\<close> the program calls are not part of the
  repository; they are parameters. Each of them returns a value or raises. \<open>'m\<close> is
  the type of a mains estimate; what \<^verbatim>\<open>detect_mains\<close> returns is an estimate or
  Python's \<^verbatim>\<open>None\<close>.
\<close>

record 'm enotools =
  detect_mains :: "buffer \<Rightarrow> exn + 'm option"
  quality :: "buffer \<Rightarrow> exn + real list"
  referencing :: "buffer \<Rightarrow> string \<Rightarrow> exn + buffer"
  signal_filtering :: "buffer \<Rightarrow> int \<Rightarrow> real \<times> real \<Rightarrow> 'm option \<Rightarrow> exn + buffer"

text \<open>A call made on \<^verbatim>\<open>enotools\<close>, with its arguments, whether it returned or raised.\<close>

datatype 'm call =
    DetectMains buffer
  | Quality buffer
  | Referencing buffer string
  | SignalFiltering buffer int "real \<times> real" "'m option"

fun is_detect_mains :: "'m call \<Rightarrow> bool" where
  "is_detect_mains (DetectMains d) = True"
| "is_detect_mains c = False"

datatype kind = Mains | Qual | Ref | Filt

fun kind_of :: "'m call \<Rightarrow> kind" where
  "kind_of (DetectMains d) = Mains"
| "kind_of (Quality d) = Qual"
| "kind_of (Referencing d mode) = Ref"
| "kind_of (SignalFiltering d fc bp bs) = Filt"

section \<open>The live view\<close>

record 'm graph =
  subject_id :: string
  exg_channels :: "nat list"
  sampling_rate :: int
  update_speed_ms :: int
  window_size :: int
  num_points :: int
  plot_names :: "string list"
  mains :: "'m option"

text \<open>
  \<^verbatim>\<open>Graph.__init__\<close> (lines 77-94). \<^verbatim>\<open>_init_timeseries\<close> reads \<^verbatim>\<open>plot_names[i]\<close>
  for every EEG channel, so a board with more than four of them raises.
\<close>

definition Graph :: "board \<Rightarrow> string \<Rightarrow> exn + 'm graph" where
  "Graph bd sid =
     (let names = [''Quality A2'', ''Quality A1'', ''Quality C4'', ''Quality C3'']
      in if length (get_eeg_channels bd) \<le> length names
         then Inr \<lparr>subject_id = sid, exg_channels = get_eeg_channels bd,
                   sampling_rate = get_sampling_rate bd, update_speed_ms = 50,
                   window_size = 10, num_points = 10 * get_sampling_rate bd,
                   plot_names = names, mains = None\<rparr>
         else Inl IndexError)"

text \<open>One drawn curve: its index, its samples, the text of its legend and its colour.\<close>

type_synonym draw = "nat \<times> real list \<times> string \<times> string"

definition label_colour :: "real \<Rightarrow> string" where
  "label_colour q = (if q \<ge> 99 then ''g'' else if q \<ge> 95 then ''y'' else ''r'')"

text \<open>
  The loop over \<^verbatim>\<open>enumerate(self.exg_channels)\<close> (lines 144-153); \<open>py_str\<close> is
  Python's \<^verbatim>\<open>str\<close> on a score.
\<close>

fun draw_loop ::
  "(real \<Rightarrow> string) \<Rightarrow> string list \<Rightarrow> real list \<Rightarrow> buffer \<Rightarrow> (nat \<times> nat) list
   \<Rightarrow> draw list \<times> exn option" where
  "draw_loop py_str names q data [] = ([], None)"
| "draw_loop py_str names q data ((count, channel) # rest) =
     (if count < length names \<and> count < length q \<and> channel < length data
      then (case draw_loop py_str names q data rest of
              (ds, r) \<Rightarrow>
                ((count, data ! channel, names ! count @ '': '' @ py_str (q ! count),
                  label_colour (q ! count)) # ds, r))
      else ([], Some IndexError))"

text \<open>
  \<^verbatim>\<open>Graph.update\<close> (lines 134-153) on the buffer that
  \<^verbatim>\<open>get_current_board_data(self.num_points)\<close> returned: the new state, the calls made
  on \<^verbatim>\<open>enotools\<close> in order, the curves drawn and the exception raised, if any. The
  estimate is stored as soon as \<^verbatim>\<open>detect_mains\<close> has returned it, before the next call.
\<close>

definition update ::
  "'m enotools \<Rightarrow> (real \<Rightarrow> string) \<Rightarrow> 'm graph \<Rightarrow> buffer
   \<Rightarrow> 'm graph \<times> 'm call list \<times> draw list \<times> exn option" where
  "update en py_str self data =
     (if int (shape1 data) > 3 * sampling_rate self
      then
        (case (if mains self = None then detect_mains en data else Inr (mains self)) of
           Inl x \<Rightarrow> (self, [DetectMains data], [], Some x)
         | Inr m \<Rightarrow>
             (let self1 = self\<lparr>mains := m\<rparr>;
                  calls0 = (if mains self = None then [DetectMains data] else [])
              in case quality en data of
                   Inl x \<Rightarrow> (self1, calls0 @ [Quality data], [], Some x)
                 | Inr q \<Rightarrow>
                     (case referencing en data ''mastoid'' of
                        Inl x \<Rightarrow>
                          (self1, calls0 @ [Quality data, Referencing data ''mastoid''], [],
                           Some x)
                      | Inr data1 \<Rightarrow>
                          (case signal_filtering en data1 250 (3, 40) m of
                             Inl x \<Rightarrow>
                               (self1,
                                calls0 @ [Quality data, Referencing data ''mastoid'',
                                          SignalFiltering data1 250 (3, 40) m],
                                [], Some x)
                           | Inr data2 \<Rightarrow>
                               (case draw_loop py_str (plot_names self1) q data2
                                       (zip [0 ..< length (exg_channels self1)]
                                          (exg_channels self1)) of
                                  (shown, r) \<Rightarrow>
                                    (self1,
                                     calls0 @ [Quality data, Referencing data ''mastoid'',
                                               SignalFiltering data1 250 (3, 40) m],
                                     shown, r))))))
      else (self, [], [], None))"

text \<open>
  The timer calls \<^verbatim>\<open>update\<close> every \<^verbatim>\<open>update_speed_ms\<close>; a live-view session is the
  run of the ticks over the buffers the driver returned, one after the other: the last
  state, the calls made on \<^verbatim>\<open>enotools\<close>, and the exception that left \<^verbatim>\<open>update\<close>, if
  one did. An exception that leaves a slot ends the application, so no tick follows it.
\<close>

fun ticks ::
  "'m enotools \<Rightarrow> (real \<Rightarrow> string) \<Rightarrow> 'm graph \<Rightarrow> buffer list
   \<Rightarrow> 'm graph \<times> 'm call list \<times> exn option" where
  "ticks en py_str self [] = (self, [], None)"
| "ticks en py_str self (data # rest) =
     (case update en py_str self data of
        (self1, cs, shown, Some x) \<Rightarrow> (self1, cs, Some x)
      | (self1, cs, shown, None) \<Rightarrow>
          (case ticks en py_str self1 rest of (self2, cs2, r) \<Rightarrow> (self2, cs @ cs2, r)))"

section \<open>Finalization\<close>

text \<open>
  \<^verbatim>\<open>astype(int)\<close> truncates towards zero (for the values that fit the integer type, as
  marker codes do).
\<close>

definition astype_int :: "real \<Rightarrow> int" where
  "astype_int x = (if x \<ge> 0 then \<lfloor>x\<rfloor> else \<lceil>x\<rceil>)"

text \<open>
  A row of the CSV file: the tuple \<^verbatim>\<open>zip(timestamps, human_readable_timestamps,
  *eeg_data, markers)\<close> yields. \<^verbatim>\<open>zip\<close> stops at the shortest of its arguments.
\<close>

type_synonym csv_row = "real \<times> string \<times> real list \<times> int"

fun zip_rows :: "real list \<Rightarrow> string list \<Rightarrow> real list list \<Rightarrow> int list \<Rightarrow> csv_row list" where
  "zip_rows (t # ts) (h # hs) eeg (m # ms) =
     (if [] \<in> set eeg then []
      else (t, h, map hd eeg, m) # zip_rows ts hs (map tl eeg) ms)"
| "zip_rows ts hs eeg ms = []"

record csv_file =
  csv_name :: string
  csv_header :: "string list"
  csv_rows :: "csv_row list"

text \<open>
  What the program hands to MNE: the array, the channel names and types and the sampling
  rate of \<^verbatim>\<open>create_info\<close>, and the name of the file of \<^verbatim>\<open>save\<close>.
\<close>

record fif_file =
  fif_name :: string
  fif_data :: buffer
  ch_names :: "string list"
  ch_types :: "string list"
  sfreq :: int

text \<open>
  The collaborators of finalization besides \<^verbatim>\<open>enotools\<close>: \<open>strftime t\<close> is
  \<^verbatim>\<open>datetime.fromtimestamp(t).strftime(...)\<close>, which raises on a timestamp out of its
  range; \<open>csv_fault f\<close> is the exception with which opening or writing the CSV file
  \<open>f\<close> fails, if it does; \<open>mne_fault f\<close> is the exception with which MNE rejects
  or fails to save \<open>f\<close>, if it does, for another reason than the two checks of
  \<^verbatim>\<open>create_info\<close> modelled below.
\<close>

record io =
  strftime :: "real \<Rightarrow> exn + string"
  csv_fault :: "csv_file \<Rightarrow> exn option"
  mne_fault :: "fif_file \<Rightarrow> exn option"

text \<open>The conditioning of lines 295-297, with the wider band-pass.\<close>

definition conditioned :: "'m enotools \<Rightarrow> buffer \<Rightarrow> exn + buffer" where
  "conditioned en data =
     (case detect_mains en data of
        Inl x \<Rightarrow> Inl x
      | Inr m \<Rightarrow>
          (case referencing en data ''mastoid'' of
             Inl x \<Rightarrow> Inl x
           | Inr data1 \<Rightarrow> signal_filtering en data1 250 (1 / 10, 45) m))"

text \<open>The list comprehension of line 306: it stops at the first timestamp that raises.\<close>

fun strftimes :: "(real \<Rightarrow> exn + string) \<Rightarrow> real list \<Rightarrow> exn + string list" where
  "strftimes f [] = Inr []"
| "strftimes f (t # ts) =
     (case f t of
        Inl x \<Rightarrow> Inl x
      | Inr s \<Rightarrow> (case strftimes f ts of Inl x \<Rightarrow> Inl x | Inr ss \<Rightarrow> Inr (s # ss)))"

text \<open>
  The outcome of finalization: the CSV file if it was written, the FIF file if it was
  written, and the exception that ended the slot, if one did.
\<close>

record export =
  csv :: "csv_file option"
  fif :: "fif_file option"
  raised :: "exn option"

definition failed :: "exn \<Rightarrow> export" where
  "failed x = \<lparr>csv = None, fif = None, raised = Some x\<rparr>"

text \<open>
  \<^verbatim>\<open>experiment_finished\<close> from the retrieved buffer on (lines 292-345). The rows are
  read and the timestamps converted before the CSV file is opened (lines 300-307); the
  FIF file is built after the CSV file is closed. \<^verbatim>\<open>mne.create_info\<close> raises
  \<^verbatim>\<open>ValueError\<close> when the sampling rate is not positive or when the names and the types
  differ in number.
\<close>

definition experiment_finished ::
  "'m enotools \<Rightarrow> io \<Rightarrow> board \<Rightarrow> string \<Rightarrow> buffer \<Rightarrow> export" where
  "experiment_finished en w bd sid raw =
     (case conditioned en raw of
        Inl x \<Rightarrow> failed x
      | Inr data \<Rightarrow>
     (case getitem data (get_marker_channel bd) of
        Inl x \<Rightarrow> failed x
      | Inr marker_row \<Rightarrow>
     (case getitem data (get_timestamp_channel bd) of
        Inl x \<Rightarrow> failed x
      | Inr timestamps \<Rightarrow>
     (case strftimes (strftime w) timestamps of
        Inl x \<Rightarrow> failed x
      | Inr human_readable_timestamps \<Rightarrow>
     (case getitems data (get_eeg_channels bd) of
        Inl x \<Rightarrow> failed x
      | Inr eeg_data \<Rightarrow>
          (let f = \<lparr>csv_name = sid @ ''_eeg_data.csv'',
                    csv_header = [''Unix Timestamp'', ''Human Readable Timestamp'']
                      @ map (\<lambda>ch. ''EEG Channel '' @ str_nat ch) (get_eeg_channels bd)
                      @ [''Marker''],
                    csv_rows = zip_rows timestamps human_readable_timestamps eeg_data
                                 (map astype_int marker_row)\<rparr>;
               m = \<lparr>fif_name = sid @ ''_eeg_data.raw.fif'',
                    fif_data = map (map (\<lambda>x. x / 1000000)) eeg_data @ [marker_row],
                    ch_names = get_eeg_names bd @ [''stim''],
                    ch_types = replicate (length (get_eeg_channels bd)) ''eeg'' @ [''stim''],
                    sfreq = get_sampling_rate bd\<rparr>
           in case csv_fault w f of
                Some x \<Rightarrow> failed x
              | None \<Rightarrow>
                  if sfreq m \<le> 0 \<or> length (ch_types m) \<noteq> length (ch_names m)
                  then \<lparr>csv = Some f, fif = None, raised = Some ValueError\<rparr>
                  else (case mne_fault w m of
                          Some x \<Rightarrow> \<lparr>csv = Some f, fif = None, raised = Some x\<rparr>
                        | None \<Rightarrow> \<lparr>csv = Some f, fif = Some m, raised = None\<rparr>)))))))"

section \<open>Concrete inputs\<close>

text \<open>
  The inputs the closed theorems below are evaluated at: the module's configuration with
  two songs, and with one song and no pause between the states; an environment in which
  every file exists and no call fails, and one in which only the first song exists.
\<close>

definition g_two :: config where
  "g_two = module_globals\<lparr>num_songs := 2\<rparr>"


definition e_all :: env where
  "e_all = \<lparr>path_exists = (\<lambda>p. True), fault = (\<lambda>h c. None)\<rparr>"

definition e_first :: env where
  "e_first = \<lparr>path_exists = (\<lambda>p. p = ''./songs/song001.mp3''), fault = (\<lambda>h c. None)\<rparr>"

definition w_other :: "unit worker" where
  "w_other = ExperimentWorker () 1 2 3 4 5 ''elsewhere''"

text \<open>
  A board laid out like the Enophone (four EEG rows, then the timestamp and the marker
  row), a conditioning library that hands every buffer back unchanged, scores every
  channel 100 and estimates the mains as \<open>()\<close>, the live view opened on that board, and
  a buffer of seven rows with \<open>n\<close> samples each.
\<close>

definition enophone :: board where
  "enophone = \<lparr>get_eeg_channels = [1, 2, 3, 4], get_eeg_names = [''A2'', ''A1'', ''C4'', ''C3''],
     get_marker_channel = 6, get_timestamp_channel = 5, get_sampling_rate = 250\<rparr>"

definition en_id :: "unit enotools" where
  "en_id = \<lparr>detect_mains = (\<lambda>d. Inr (Some ())), quality = (\<lambda>d. Inr (map (\<lambda>r. 100) d)),
     referencing = (\<lambda>d mode. Inr d), signal_filtering = (\<lambda>d fc bp bs. Inr d)\<rparr>"

definition graph0 :: "unit graph" where
  "graph0 = \<lparr>subject_id = ''S01'', exg_channels = [1, 2, 3, 4], sampling_rate = 250,
     update_speed_ms = 50, window_size = 10, num_points = 2500,
     plot_names = [''Quality A2'', ''Quality A1'', ''Quality C4'', ''Quality C3''],
     mains = None\<rparr>"

definition flat :: "nat \<Rightarrow> buffer" where
  "flat n = replicate 7 (replicate n 0)"

definition str0 :: "real \<Rightarrow> string" where
  "str0 q = ''100.0''"

text \<open>
  A board with two EEG rows, a recording of two samples on it, the same recording
  without its marker row, and a file system and a clock that accept everything.
\<close>

definition small_board :: board where
  "small_board = \<lparr>get_eeg_channels = [0, 1], get_eeg_names = [''A2'', ''A1''],
     get_marker_channel = 3, get_timestamp_channel = 2, get_sampling_rate = 250\<rparr>"

definition human0 :: "real \<Rightarrow> string" where
  "human0 t = (if t = 10 then ''1970-01-01 00:00:10.000000'' else ''1970-01-01 00:00:20.000000'')"

definition io0 :: io where
  "io0 = \<lparr>strftime = (\<lambda>t. Inr (human0 t)), csv_fault = (\<lambda>f. None), mne_fault = (\<lambda>f. None)\<rparr>"

definition square :: buffer where
  "square = [[1000000, 2000000], [3, 4], [10, 20], [5, 0]]"

definition three_rows :: buffer where
  "three_rows = [[1000000, 2000000], [3, 4], [10, 20]]"

section \<open>Properties of the protocol\<close>

lemma markers_append: "markers (xs @ ys) = markers xs @ markers ys"
  by (induction xs rule: markers.induct) simp_all

lemma status_events_append: "status_events (xs @ ys) = status_events xs @ status_events ys"
  by (induction xs rule: status_events.induct) simp_all




lemma markers_empty: "\<forall>x \<in> set t. \<forall>m. x \<noteq> InsertMarker m \<Longrightarrow> markers t = []"
  by (induction t rule: markers.induct) simp_all


lemma status_events_empty: "\<forall>x \<in> set t. \<forall>m d. x \<noteq> UpdateMessage m d \<Longrightarrow> status_events t = []"
  by (induction t rule: status_events.induct) simp_all


lemma no_complete:
  "(\<forall>d. UpdateMessage ''Experiment Complete'' d \<notin> set t) \<Longrightarrow>
   filter is_complete_status (status_events t) = []"
  by (induction t rule: status_events.induct) (auto simp: is_complete_status_def)

text \<open>A block of calls.\<close>

lemma calls_prefix: "prefix (fst (calls e h cs)) cs"
  by (induction cs arbitrary: h) (simp_all add: case_prod_beta split: option.split)

lemma calls_subset: "set (fst (calls e h cs)) \<subseteq> set cs"
  using calls_prefix [of e h cs] by (rule set_mono_prefix)

lemma calls_None: "snd (calls e h cs) = None \<Longrightarrow> fst (calls e h cs) = cs"
  by (induction cs arbitrary: h) (simp_all add: case_prod_beta split: option.splits)

lemma calls_sleeps: "Sleep d \<in> set (fst (calls e h cs)) \<Longrightarrow> in_range d"
proof (induction cs arbitrary: h)
  case Nil
  then show ?case by simp
next
  case (Cons c cs)
  show ?case
  proof (cases "raises e h c")
    case None
    with Cons.prems have "c = Sleep d \<or> Sleep d \<in> set (fst (calls e (h @ [c]) cs))"
      by (auto simp: case_prod_beta)
    then show ?thesis
    proof
      assume "c = Sleep d"
      with None show ?thesis
        by (simp add: in_range_def split: if_splits)
    next
      assume "Sleep d \<in> set (fst (calls e (h @ [c]) cs))"
      then show ?thesis by (rule Cons.IH)
    qed
  next
    case (Some x)
    with Cons.prems show ?thesis by simp
  qed
qed

lemma raises_not_missing: "raises e h c \<noteq> Some (FileNotFoundError m)"
  by (cases c) (auto split: if_splits)

lemma calls_not_missing: "snd (calls e h cs) \<noteq> Some (FileNotFoundError m)"
  by (induction cs arbitrary: h)
     (auto simp: case_prod_beta raises_not_missing split: option.split)

lemma calls_ok: "(\<forall>c \<in> set cs. \<forall>h. raises e h c = None) \<Longrightarrow> calls e h cs = (cs, None)"
  by (induction cs arbitrary: h) simp_all

lemma raises_quiet:
  assumes "\<forall>h c. \<not> is_mixer c \<longrightarrow> fault e h c = None"
    and "\<not> is_mixer c" and "\<forall>d. c = Sleep d \<longrightarrow> in_range d"
    and "\<forall>m d. c = UpdateMessage m d \<longrightarrow> fits_int d"
  shows "raises e h c = None"
  using assms by (cases c) (auto simp: in_range_def)

text \<open>\<^verbatim>\<open>play_song\<close> writes no marker, emits no status and never waits a negative time.\<close>

lemma play_song_events:
  "set (play_song e h p d) \<subseteq>
     {MixerInit, MixerLoad p, MixerPlay, Sleep (real_of_int d), MixerStop}
     \<union> range (LogError ''Error playing song: '')"
  using calls_subset [of e h "[MixerInit, MixerLoad p, MixerPlay, Sleep (real_of_int d), MixerStop]"]
  by (auto simp: play_song_def case_prod_beta split: option.split)

lemma markers_play_song: "markers (play_song e h p d) = []"
  using play_song_events [of e h p d] by (intro markers_empty) auto


lemma status_events_play_song: "status_events (play_song e h p d) = []"
  using play_song_events [of e h p d] by (intro status_events_empty) auto

lemma play_song_no_finished: "Finished \<notin> set (play_song e h p d)"
  using play_song_events [of e h p d] by auto


text \<open>One pass of the loop body.\<close>

lemma song_phase_ok:
  assumes "snd (song_phase g e h i) = None"
  shows "fst (song_phase g e h i) =
           song_start g i
           @ play_song e (h @ song_start g i) (song_path g i) (song_duration g)
           @ song_end g"
    and "in_range (sleep_time g)"
    and "in_range (real_of_int (pause_duration g))"
proof -
  obtain t1 r1 where c1: "calls e h (song_start g i) = (t1, r1)"
    by (cases "calls e h (song_start g i)")
  from assms c1 have r1: "r1 = None"
    by (cases r1) (simp_all add: song_phase_def)
  with c1 calls_None [of e h "song_start g i"] have t1: "t1 = song_start g i"
    by simp
  let ?t2 = "play_song e (h @ song_start g i) (song_path g i) (song_duration g)"
  obtain t3 r3 where c3: "calls e (h @ song_start g i @ ?t2) (song_end g) = (t3, r3)"
    by (cases "calls e (h @ song_start g i @ ?t2) (song_end g)")
  from assms c1 r1 t1 c3 have r3: "r3 = None"
    by (simp add: song_phase_def Let_def)
  with c3 calls_None [of e "h @ song_start g i @ ?t2" "song_end g"] have t3: "t3 = song_end g"
    by simp
  show "fst (song_phase g e h i) = song_start g i @ ?t2 @ song_end g"
    by (simp add: song_phase_def Let_def c1 r1 t1 c3 t3)
  have "Sleep (sleep_time g) \<in> set (fst (calls e (h @ song_start g i @ ?t2) (song_end g)))"
    by (simp only: c3 t3 fst_conv) (simp add: song_end_def)
  then show "in_range (sleep_time g)" by (rule calls_sleeps)
  have "Sleep (real_of_int (pause_duration g))
          \<in> set (fst (calls e (h @ song_start g i @ ?t2) (song_end g)))"
    by (simp only: c3 t3 fst_conv) (simp add: song_end_def)
  then show "in_range (real_of_int (pause_duration g))" by (rule calls_sleeps)
qed

lemma song_phase_events:
  "set (fst (song_phase g e h i)) \<subseteq>
     set (song_start g i)
     \<union> set (play_song e (h @ fst (calls e h (song_start g i))) (song_path g i) (song_duration g))
     \<union> set (song_end g)"
proof -
  obtain t1 r1 where c1: "calls e h (song_start g i) = (t1, r1)"
    by (cases "calls e h (song_start g i)")
  have s1: "set t1 \<subseteq> set (song_start g i)"
    using calls_subset [of e h "song_start g i"] by (simp only: c1 fst_conv)
  show ?thesis
  proof (cases r1)
    case (Some x)
    with c1 s1 show ?thesis by (auto simp: song_phase_def)
  next
    case None
    let ?t2 = "play_song e (h @ t1) (song_path g i) (song_duration g)"
    obtain t3 r3 where c3: "calls e (h @ t1 @ ?t2) (song_end g) = (t3, r3)"
      by (cases "calls e (h @ t1 @ ?t2) (song_end g)")
    have s3: "set t3 \<subseteq> set (song_end g)"
      using calls_subset [of e "h @ t1 @ ?t2" "song_end g"] by (simp only: c3 fst_conv)
    from None c1 c3 s1 s3 show ?thesis
      by (auto simp: song_phase_def Let_def)
  qed
qed

lemma song_phase_plain:
  "x \<in> set (fst (song_phase g e h i)) \<Longrightarrow>
   x \<noteq> Finished \<and> (\<forall>d. x \<noteq> UpdateMessage ''Experiment Complete'' d)"
  using song_phase_events [of g e h i]
    play_song_events [of e "h @ fst (calls e h (song_start g i))" "song_path g i" "song_duration g"]
  by (auto simp: song_start_def song_end_def)

lemma song_phase_not_missing: "snd (song_phase g e h i) \<noteq> Some (FileNotFoundError m)"
proof -
  obtain t1 r1 where c1: "calls e h (song_start g i) = (t1, r1)"
    by (cases "calls e h (song_start g i)")
  have n1: "r1 \<noteq> Some (FileNotFoundError m)"
    using calls_not_missing [of e h "song_start g i" m] by (simp add: c1)
  show ?thesis
  proof (cases r1)
    case (Some x)
    with c1 n1 show ?thesis by (simp add: song_phase_def)
  next
    case None
    let ?t2 = "play_song e (h @ t1) (song_path g i) (song_duration g)"
    obtain t3 r3 where c3: "calls e (h @ t1 @ ?t2) (song_end g) = (t3, r3)"
      by (cases "calls e (h @ t1 @ ?t2) (song_end g)")
    have "r3 \<noteq> Some (FileNotFoundError m)"
      using calls_not_missing [of e "h @ t1 @ ?t2" "song_end g" m] by (simp add: c3)
    with None c1 c3 show ?thesis
      by (simp add: song_phase_def Let_def)
  qed
qed

lemma song_phase_quiet:
  assumes "\<forall>h c. \<not> is_mixer c \<longrightarrow> fault e h c = None"
    and "accepted g"
  shows "snd (song_phase g e h i) = None"
proof -
  note q = assms(1) [rule_format]
  have 1: "calls e h (song_start g i) = (song_start g i, None)" for h
    using assms(2)
    by (intro calls_ok) (simp add: song_start_def q accepted_def)
  have 3: "calls e h (song_end g) = (song_end g, None)" for h
    using assms(2)
    by (intro calls_ok) (simp add: song_end_def q accepted_def in_range_def)
  show ?thesis
    by (simp add: song_phase_def Let_def 1 3)
qed

lemma markers_song_phase:
  "snd (song_phase g e h i) = None \<Longrightarrow> markers (fst (song_phase g e h i)) = [3, 1]"
  by (simp add: song_phase_ok(1) markers_append markers_play_song)
     (simp add: song_start_def song_end_def)

lemma status_events_song_phase:
  "snd (song_phase g e h i) = None \<Longrightarrow>
   status_events (fst (song_phase g e h i)) =
     [(''Song '' @ str_nat (i + 1), song_duration g), (''Relax'', pause_duration g)]"
  by (simp add: song_phase_ok(1) status_events_append status_events_play_song)
     (simp add: song_start_def song_end_def)


text \<open>The loop.\<close>

lemma song_loop_Cons_ok:
  assumes "snd (song_loop g e h (i # is)) = None"
  shows "path_exists e (song_path g i)"
    and "snd (song_phase g e (h @ [PathExists (song_path g i)]) i) = None"
    and "snd (song_loop g e
           (h @ PathExists (song_path g i) # fst (song_phase g e (h @ [PathExists (song_path g i)]) i))
           is) = None"
    and "fst (song_loop g e h (i # is)) =
           PathExists (song_path g i) # fst (song_phase g e (h @ [PathExists (song_path g i)]) i)
           @ fst (song_loop g e
               (h @ PathExists (song_path g i)
                  # fst (song_phase g e (h @ [PathExists (song_path g i)]) i)) is)"
  using assms by (auto simp: case_prod_beta split: if_splits option.splits prod.splits)

lemma song_loop_plain:
  "x \<in> set (fst (song_loop g e h is)) \<Longrightarrow>
   x \<noteq> Finished \<and> (\<forall>d. x \<noteq> UpdateMessage ''Experiment Complete'' d)"
proof (induction "is" arbitrary: h)
  case Nil
  then show ?case by simp
next
  case (Cons i "is")
  let ?p = "PathExists (song_path g i)"
  show ?case
  proof (cases "path_exists e (song_path g i)")
    case False
    with Cons.prems show ?thesis by auto
  next
    case True
    obtain t r where ph: "song_phase g e (h @ [?p]) i = (t, r)"
      by (cases "song_phase g e (h @ [?p]) i")
    have pt: "y \<in> set t \<Longrightarrow> y \<noteq> Finished \<and> (\<forall>d. y \<noteq> UpdateMessage ''Experiment Complete'' d)" for y
      using song_phase_plain [of y g e "h @ [?p]" i] by (simp add: ph)
    show ?thesis
    proof (cases r)
      case (Some x')
      with Cons.prems True ph pt show ?thesis by auto
    next
      case None
      with Cons.prems True ph have "x = ?p \<or> x \<in> set t \<or> x \<in> set (fst (song_loop g e (h @ ?p # t) is))"
        by (auto simp: case_prod_beta)
      with pt Cons.IH [of "h @ ?p # t"] show ?thesis by auto
    qed
  qed
qed

lemma song_loop_not_missing:
  "\<forall>i \<in> set is. path_exists e (song_path g i) \<Longrightarrow>
   snd (song_loop g e h is) \<noteq> Some (FileNotFoundError m)"
proof (induction "is" arbitrary: h)
  case Nil
  then show ?case by simp
next
  case (Cons i "is")
  let ?p = "PathExists (song_path g i)"
  obtain t r where ph: "song_phase g e (h @ [?p]) i = (t, r)"
    by (cases "song_phase g e (h @ [?p]) i")
  have nr: "r \<noteq> Some (FileNotFoundError m)"
    using song_phase_not_missing [of g e "h @ [?p]" i m] by (simp add: ph)
  show ?case
  proof (cases r)
    case (Some x)
    with Cons.prems ph nr show ?thesis by simp
  next
    case None
    with Cons.prems ph Cons.IH [of "h @ ?p # t"] show ?thesis
      by (simp add: case_prod_beta)
  qed
qed


lemma status_events_song_loop_ok:
  "snd (song_loop g e h is) = None \<Longrightarrow>
   status_events (fst (song_loop g e h is)) =
     concat (map (\<lambda>i. [(''Song '' @ str_nat (i + 1), song_duration g),
                        (''Relax'', pause_duration g)]) is)"
proof (induction "is" arbitrary: h)
  case Nil
  then show ?case by simp
next
  case (Cons i "is")
  note ok = song_loop_Cons_ok [OF Cons.prems]
  show ?case
    by (simp only: ok(4))
       (simp add: status_events_append status_events_song_phase [OF ok(2)] Cons.IH [OF ok(3)])
qed

lemma song_loop_quiet_all:
  assumes "\<forall>h c. \<not> is_mixer c \<longrightarrow> fault e h c = None"
    and "accepted g"
  shows "\<forall>i \<in> set is. path_exists e (song_path g i) \<Longrightarrow> snd (song_loop g e h is) = None"
proof (induction "is" arbitrary: h)
  case Nil
  then show ?case by simp
next
  case (Cons i "is")
  let ?p = "PathExists (song_path g i)"
  obtain t r where ph: "song_phase g e (h @ [?p]) i = (t, r)"
    by (cases "song_phase g e (h @ [?p]) i")
  have "r = None"
    using song_phase_quiet [OF assms, of "h @ [?p]" i] by (simp add: ph)
  with Cons.prems ph Cons.IH [of "h @ ?p # t"] show ?case
    by (simp add: case_prod_beta)
qed

lemma song_loop_quiet_missing:
  assumes "\<forall>h c. \<not> is_mixer c \<longrightarrow> fault e h c = None"
    and "accepted g"
    and "\<not> path_exists e (song_path g i)"
  shows "\<forall>j \<in> set js. path_exists e (song_path g j) \<Longrightarrow>
     snd (song_loop g e h (js @ i # ks))
       = Some (FileNotFoundError (''Song file not found: '' @ song_path g i))
   \<and> markers (fst (song_loop g e h (js @ i # ks))) = concat (replicate (length js) [3, 1])
   \<and> status_events (fst (song_loop g e h (js @ i # ks))) =
       concat (map (\<lambda>i. [(''Song '' @ str_nat (i + 1), song_duration g),
                          (''Relax'', pause_duration g)]) js)
   \<and> (\<exists>t. fst (song_loop g e h (js @ i # ks)) = t @ [PathExists (song_path g i)])"
proof (induction js arbitrary: h)
  case Nil
  with assms(3) show ?case by simp
next
  case (Cons j js)
  let ?p = "PathExists (song_path g j)"
  obtain t r where ph: "song_phase g e (h @ [?p]) j = (t, r)"
    by (cases "song_phase g e (h @ [?p]) j")
  have r: "r = None"
    using song_phase_quiet [OF assms(1,2), of "h @ [?p]" j] by (simp add: ph)
  have ok: "snd (song_phase g e (h @ [?p]) j) = None"
    by (simp add: ph r)
  have m: "markers t = [3, 1]"
    using markers_song_phase [OF ok] by (simp add: ph)
  have s: "status_events t =
      [(''Song '' @ str_nat (j + 1), song_duration g), (''Relax'', pause_duration g)]"
    using status_events_song_phase [OF ok] by (simp add: ph)
  from Cons.prems have rest: "\<forall>j \<in> set js. path_exists e (song_path g j)"
    and here: "path_exists e (song_path g j)"
    by simp_all
  note IH = Cons.IH [OF rest, of "h @ ?p # t"]
  from IH obtain t' where t': "fst (song_loop g e (h @ ?p # t) (js @ i # ks)) = t' @ [PathExists (song_path g i)]"
    by blast
  have "fst (song_loop g e h ((j # js) @ i # ks)) = (?p # t @ t') @ [PathExists (song_path g i)]"
    using here ph r t' by (simp add: case_prod_beta)
  then have ex: "\<exists>u. fst (song_loop g e h ((j # js) @ i # ks)) = u @ [PathExists (song_path g i)]"
    by blast
  from IH here ph r m s ex show ?case
    by (simp add: case_prod_beta markers_append status_events_append)
qed

text \<open>The body of the \<^verbatim>\<open>try\<close>.\<close>

lemma run_try_ok:
  assumes "snd (run_try g e) = None"
  shows "fst (run_try g e) =
           start_phase g @ fst (song_loop g e (start_phase g) [0 ..< nat (num_songs g)])"
    and "snd (song_loop g e (start_phase g) [0 ..< nat (num_songs g)]) = None"
    and "in_range (sleep_time g)"
    and "in_range (real_of_int (relax_duration g))"
proof -
  obtain t r where c: "calls e [] (start_phase g) = (t, r)"
    by (cases "calls e [] (start_phase g)")
  from assms c have r: "r = None"
    by (cases r) (simp_all add: run_try_def)
  with c calls_None [of e "[]" "start_phase g"] have t: "t = start_phase g"
    by simp
  show "fst (run_try g e) =
      start_phase g @ fst (song_loop g e (start_phase g) [0 ..< nat (num_songs g)])"
    by (simp add: run_try_def c r t case_prod_beta)
  show "snd (song_loop g e (start_phase g) [0 ..< nat (num_songs g)]) = None"
    using assms by (simp add: run_try_def c r t case_prod_beta)
  have "Sleep (sleep_time g) \<in> set (fst (calls e [] (start_phase g)))"
    by (simp add: c t) (simp add: start_phase_def)
  then show "in_range (sleep_time g)" by (rule calls_sleeps)
  have "Sleep (real_of_int (relax_duration g)) \<in> set (fst (calls e [] (start_phase g)))"
    by (simp add: c t) (simp add: start_phase_def)
  then show "in_range (real_of_int (relax_duration g))" by (rule calls_sleeps)
qed

lemma start_phase_quiet:
  assumes "\<forall>h c. \<not> is_mixer c \<longrightarrow> fault e h c = None"
    and "accepted g"
  shows "calls e h (start_phase g) = (start_phase g, None)"
  using assms(2)
  by (intro calls_ok)
     (simp add: start_phase_def assms(1) [rule_format] accepted_def in_range_def)

lemma run_try_plain:
  assumes "x \<in> set (fst (run_try g e))"
  shows "x \<noteq> Finished \<and> (\<forall>d. x \<noteq> UpdateMessage ''Experiment Complete'' d)"
proof -
  obtain t r where c: "calls e [] (start_phase g) = (t, r)"
    by (cases "calls e [] (start_phase g)")
  have s: "set t \<subseteq> set (start_phase g)"
    using calls_subset [of e "[]" "start_phase g"] by (simp add: c)
  have p: "y \<in> set t \<Longrightarrow> y \<noteq> Finished \<and> (\<forall>d. y \<noteq> UpdateMessage ''Experiment Complete'' d)" for y
    using s by (auto simp: start_phase_def)
  show ?thesis
  proof (cases r)
    case (Some x')
    with assms c p show ?thesis by (simp add: run_try_def)
  next
    case None
    with assms c have "x \<in> set t \<or> x \<in> set (fst (song_loop g e t [0 ..< nat (num_songs g)]))"
      by (auto simp: run_try_def case_prod_beta)
    with p song_loop_plain [of x g e t] show ?thesis by blast
  qed
qed

lemma run_try_no_finished: "filter (\<lambda>x. x = Finished) (fst (run_try g e)) = []"
  using run_try_plain [of _ g e] by (auto simp: filter_empty_conv)

lemma run_try_no_complete:
  "filter is_complete_status (status_events (fst (run_try g e))) = []"
  using run_try_plain [of _ g e] by (intro no_complete) blast

lemma handler_end:
  "handler (t, r) =
     (t @ (case r of None \<Rightarrow> [] | Some x \<Rightarrow> [LogError ''Error in experiment: '' x]))
     @ [UpdateMessage ''Experiment Complete'' 5, Finished]"
  by (simp add: handler_def)

lemma handler_finished:
  "length (filter (\<lambda>x. x = Finished) (handler (t, r)))
     = length (filter (\<lambda>x. x = Finished) t) + 1"
  by (simp add: handler_def split: option.split)

lemma handler_complete:
  "length (filter is_complete_status (status_events (handler (t, r))))
     = length (filter is_complete_status (status_events t)) + 1"
  by (simp add: handler_def status_events_append is_complete_status_def split: option.split)

lemma run_finished_once: "length (filter (\<lambda>x. x = Finished) (run w g e)) = 1"
  using handler_finished [of "fst (run_try g e)" "snd (run_try g e)"]
  by (simp add: run_def run_try_no_finished)

lemma run_ignores_self: "run w g e = run w' g e"
  by (simp add: run_def)

lemma markers_handler: "markers (handler (t, r)) = markers t"
  by (simp add: handler_def markers_append split: option.split)

lemma status_events_handler:
  "status_events (handler (t, r)) = status_events t @ [(''Experiment Complete'', 5)]"
  by (simp add: handler_def status_events_append split: option.split)

text \<open>The session: the slot runs once, after the run.\<close>

lemma session_unfold:
  "session b g e =
     (case calls e (handler (run_try g e)) (experiment_finished_calls g) of
        (t, r) \<Rightarrow> (handler (run_try g e) @ t, r))"
proof -
  let ?w = "ExperimentWorker b (relax_duration g) (song_duration g) (pause_duration g)
              (num_songs g) (sleep_time g) (song_directory g)"
  let ?t = "handler (run_try g e)"
  have "on_finished g e ?t (Suc 0) = calls e ?t (experiment_finished_calls g)"
  proof -
    obtain t r where c: "calls e ?t (experiment_finished_calls g) = (t, r)"
      by (cases "calls e ?t (experiment_finished_calls g)")
    show ?thesis by (cases r) (simp_all add: c)
  qed
  then show ?thesis
    using run_finished_once [of ?w g e]
    by (simp add: session_def Let_def case_prod_beta run_def)
qed


lemma session_quiet:
  assumes "\<forall>h c. \<not> is_mixer c \<longrightarrow> fault e h c = None"
    and "in_range (sleep_time g)"
  shows "session b g e = (handler (run_try g e) @ experiment_finished_calls g, None)"
proof -
  have "calls e (handler (run_try g e)) (experiment_finished_calls g)
      = (experiment_finished_calls g, None)"
    using assms(2)
    by (intro calls_ok)
       (simp add: experiment_finished_calls_def assms(1) [rule_format] in_range_def)
  then show ?thesis
    by (simp add: session_unfold)
qed


lemma run_try_quiet:
  assumes "\<forall>h c. \<not> is_mixer c \<longrightarrow> fault e h c = None"
    and "accepted g"
    and "\<forall>i < nat (num_songs g). path_exists e (song_path g i)"
  shows "snd (run_try g e) = None"
proof -
  have "snd (song_loop g e (start_phase g) [0 ..< nat (num_songs g)]) = None"
    using assms(3) by (intro song_loop_quiet_all [OF assms(1,2)]) simp
  then show ?thesis
    by (simp add: run_try_def start_phase_quiet [OF assms(1,2)] case_prod_beta)
qed



lemma accepted_g_two: "accepted g_two"
  by (simp add: accepted_def fits_int_def g_two_def module_globals_def in_range_def time_max_def)



lemma num_songs_g_two: "num_songs g_two = 2"
  by (simp add: g_two_def)



text \<open>
  Claim C2. Every run of the sequencer, whether the body of its \<^verbatim>\<open>try\<close> ended normally
  or in an exception (of \<^verbatim>\<open>time.sleep\<close>, of the driver, of a signal, of the existence
  check), ends with the status event "Experiment Complete" followed by the signal
  \<^verbatim>\<open>finished\<close>, and each of the two occurs exactly once in the run. This is the work of
  the handler and the \<^verbatim>\<open>finally\<close> block alone: after any trace \<open>t\<close> and any outcome \<open>r\<close>
  of a body they add the two events once, at the end.
\<close>

theorem C2_completion_once:
  "(\<exists>t. run w g e = t @ [UpdateMessage ''Experiment Complete'' 5, Finished])
   \<and> length (filter (\<lambda>x. x = Finished) (run w g e)) = 1
   \<and> length (filter is_complete_status (status_events (run w g e))) = 1
   \<and> run w g e = handler (run_try g e)
   \<and> (\<forall>t r. (\<exists>u. handler (t, r) = u @ [UpdateMessage ''Experiment Complete'' 5, Finished])
          \<and> length (filter (\<lambda>x. x = Finished) (handler (t, r)))
              = length (filter (\<lambda>x. x = Finished) t) + 1
          \<and> length (filter is_complete_status (status_events (handler (t, r))))
              = length (filter is_complete_status (status_events t)) + 1)"
proof -
  have gen: "(\<exists>u. handler (t, r) = u @ [UpdateMessage ''Experiment Complete'' 5, Finished])
          \<and> length (filter (\<lambda>x. x = Finished) (handler (t, r)))
              = length (filter (\<lambda>x. x = Finished) t) + 1
          \<and> length (filter is_complete_status (status_events (handler (t, r))))
              = length (filter is_complete_status (status_events t)) + 1" for t r
    using handler_end [of t r] handler_finished [of t r] handler_complete [of t r] by blast
  have a: "\<exists>t. run w g e = t @ [UpdateMessage ''Experiment Complete'' 5, Finished]"
    using handler_end [of "fst (run_try g e)" "snd (run_try g e)"] by (simp add: run_def)
  have b: "length (filter (\<lambda>x. x = Finished) (run w g e)) = 1"
    by (rule run_finished_once)
  have c: "length (filter is_complete_status (status_events (run w g e))) = 1"
    using handler_complete [of "fst (run_try g e)" "snd (run_try g e)"]
    by (simp add: run_def run_try_no_complete)
  have d: "run w g e = handler (run_try g e)"
    by (simp add: run_def)
  from a b c d gen show ?thesis by blast
qed

text \<open>The run when song \<open>j\<close> is the first whose file is missing.\<close>

lemma run_first_missing:
  assumes "j < nat (num_songs g)"
    and "\<forall>k < j. path_exists e (song_path g k)"
    and "\<not> path_exists e (song_path g j)"
    and "\<forall>h c. \<not> is_mixer c \<longrightarrow> fault e h c = None"
    and "accepted g"
  shows "snd (run_try g e) = Some (FileNotFoundError (''Song file not found: '' @ song_path g j))"
    and "\<exists>t. run w g e = t @ [PathExists (song_path g j),
              LogError ''Error in experiment: ''
                (FileNotFoundError (''Song file not found: '' @ song_path g j)),
              UpdateMessage ''Experiment Complete'' 5, Finished]"
    and "markers (run w g e) = [5, 1] @ concat (replicate j [3, 1])"
    and "status_events (run w g e) =
           (''Relax with eyes closed'', relax_duration g)
           # concat (map (\<lambda>k. [(''Song '' @ str_nat (k + 1), song_duration g),
                               (''Relax'', pause_duration g)]) [0 ..< j])
           @ [(''Experiment Complete'', 5)]"
proof -
  have split: "[0 ..< nat (num_songs g)] = [0 ..< j] @ j # [Suc j ..< nat (num_songs g)]"
  proof -
    have "[0 ..< nat (num_songs g)] = [0 ..< j] @ [j ..< nat (num_songs g)]"
      using assms(1) upt_add_eq_append [of 0 j "nat (num_songs g) - j"] by simp
    then show ?thesis using assms(1) by (simp add: upt_conv_Cons)
  qed
  let ?loop = "song_loop g e (start_phase g) [0 ..< nat (num_songs g)]"
  have before: "\<forall>k \<in> set [0 ..< j]. path_exists e (song_path g k)"
    using assms(2) by simp
  note L = song_loop_quiet_missing [OF assms(4,5,3) before, of "start_phase g" "[Suc j ..< nat (num_songs g)]",
      folded split]
  from L obtain t where t: "fst ?loop = t @ [PathExists (song_path g j)]"
    by blast
  have r: "snd ?loop = Some (FileNotFoundError (''Song file not found: '' @ song_path g j))"
    using L by blast
  have st: "calls e [] (start_phase g) = (start_phase g, None)"
    using assms(4,5) by (rule start_phase_quiet)
  have body: "run_try g e = (start_phase g @ fst ?loop, snd ?loop)"
    by (simp add: run_try_def st case_prod_beta)
  show "snd (run_try g e) = Some (FileNotFoundError (''Song file not found: '' @ song_path g j))"
    by (simp add: body r)
  have "run w g e = (start_phase g @ t) @ [PathExists (song_path g j),
              LogError ''Error in experiment: ''
                (FileNotFoundError (''Song file not found: '' @ song_path g j)),
              UpdateMessage ''Experiment Complete'' 5, Finished]"
    by (simp add: run_def body handler_def r t)
  then show "\<exists>t. run w g e = t @ [PathExists (song_path g j),
              LogError ''Error in experiment: ''
                (FileNotFoundError (''Song file not found: '' @ song_path g j)),
              UpdateMessage ''Experiment Complete'' 5, Finished]"
    by blast
  show "markers (run w g e) = [5, 1] @ concat (replicate j [3, 1])"
    using L by (simp add: run_def body markers_handler markers_append) (simp add: start_phase_def)
  show "status_events (run w g e) =
           (''Relax with eyes closed'', relax_duration g)
           # concat (map (\<lambda>k. [(''Song '' @ str_nat (k + 1), song_duration g),
                               (''Relax'', pause_duration g)]) [0 ..< j])
           @ [(''Experiment Complete'', 5)]"
    using L by (simp add: run_def body status_events_handler status_events_append)
      (simp add: start_phase_def)
qed

text \<open>
  Claim C3. The spec's \<^verbatim>\<open>MissingAssetError\<close> is the \<^verbatim>\<open>FileNotFoundError\<close> of line 214.
  Let the waits of the configuration be ones \<^verbatim>\<open>time.sleep\<close> accepts, its durations
  ones \<^verbatim>\<open>update_message\<close> can carry, and let no call outside the mixer fail, so that
  the sequencer comes to every existence check it is due. If the file of song \<open>i\<close> (counted from 0) is missing, the body of the run ends in
  the \<^verbatim>\<open>FileNotFoundError\<close> of the first missing song \<open>j \<le> i\<close> (\<open>j = i\<close> when the earlier
  files are there), raised right after the failed check: the markers of the run are 5, 1
  and the pair 3, 1 of the \<open>j\<close> songs before, the status events are those of the start
  and of these \<open>j\<close> songs and the completion, so no marker is written and no status is
  emitted for song \<open>j\<close> or any later one. The slot of \<^verbatim>\<open>finished\<close> still runs and
  writes marker 6, which is the last marker of the session.
\<close>

theorem C3_missing_asset:
  assumes "i < nat (num_songs g)"
    and "\<not> path_exists e (song_path g i)"
    and "\<forall>h c. \<not> is_mixer c \<longrightarrow> fault e h c = None"
    and "in_range (sleep_time g)" and "in_range (real_of_int (relax_duration g))"
    and "in_range (real_of_int (pause_duration g))"
    and "fits_int (relax_duration g)" and "fits_int (song_duration g)"
    and "fits_int (pause_duration g)"
  shows "\<exists>j \<le> i.
           (\<forall>k < j. path_exists e (song_path g k))
         \<and> ((\<forall>k < i. path_exists e (song_path g k)) \<longrightarrow> j = i)
         \<and> snd (run_try g e)
             = Some (FileNotFoundError (''Song file not found: '' @ song_path g j))
         \<and> (\<exists>t. run w g e = t @ [PathExists (song_path g j),
                LogError ''Error in experiment: ''
                  (FileNotFoundError (''Song file not found: '' @ song_path g j)),
                UpdateMessage ''Experiment Complete'' 5, Finished])
         \<and> markers (run w g e) = [5, 1] @ concat (replicate j [3, 1])
         \<and> status_events (run w g e) =
             (''Relax with eyes closed'', relax_duration g)
             # concat (map (\<lambda>k. [(''Song '' @ str_nat (k + 1), song_duration g),
                                 (''Relax'', pause_duration g)]) [0 ..< j])
             @ [(''Experiment Complete'', 5)]
         \<and> snd (session b g e) = None
         \<and> markers (fst (session b g e)) = [5, 1] @ concat (replicate j [3, 1]) @ [6]
         \<and> last (markers (fst (session b g e))) = 6"
proof -
  define j where "j = (LEAST k. \<not> path_exists e (song_path g k))"
  have miss: "\<not> path_exists e (song_path g j)"
    unfolding j_def using assms(2) by (rule LeastI)
  have le: "j \<le> i"
    unfolding j_def using assms(2) by (rule Least_le)
  have before: "\<forall>k < j. path_exists e (song_path g k)"
    unfolding j_def using not_less_Least by blast
  have eq: "(\<forall>k < i. path_exists e (song_path g k)) \<longrightarrow> j = i"
    using miss le by (auto simp: le_less)
  have lt: "j < nat (num_songs g)"
    using le assms(1) by simp
  have acc: "accepted g"
    using assms(4-9) by (simp add: accepted_def)
  note r = run_first_missing [OF lt before miss assms(3) acc]
  have s: "session b g e = (handler (run_try g e) @ experiment_finished_calls g, None)"
    using assms(3,4) by (rule session_quiet)
  have m: "markers (fst (session b g e)) = [5, 1] @ concat (replicate j [3, 1]) @ [6]"
    using r(3) [of w]
    by (simp add: s markers_append run_def) (simp add: experiment_finished_calls_def)
  have l: "last (markers (fst (session b g e))) = 6"
    by (simp add: m)
  from le before eq r(1) r(2) [of w] r(3) [of w] r(4) [of w] s m l show ?thesis
    by (intro exI [of _ j]) simp
qed

lemma song_path_g_two_0: "song_path g_two 0 = ''./songs/song001.mp3''"
  by (simp add: song_path_def g_two_def module_globals_def fmt_03d_def str_nat.simps digit_char_def
      numeral_2_eq_2)

lemma song_path_g_two_1: "song_path g_two (Suc 0) = ''./songs/song002.mp3''"
  by (simp add: song_path_def g_two_def module_globals_def fmt_03d_def str_nat.simps digit_char_def
      numeral_2_eq_2)

theorem C3_missing_asset_witness:
  "Suc 0 < nat (num_songs g_two) \<and> \<not> path_exists e_first (song_path g_two (Suc 0))
   \<and> in_range (sleep_time g_two) \<and> in_range (real_of_int (relax_duration g_two))
   \<and> in_range (real_of_int (pause_duration g_two))
   \<and> fits_int (relax_duration g_two) \<and> fits_int (song_duration g_two)
   \<and> fits_int (pause_duration g_two)
   \<and> markers (run w_other g_two e_first) = [5, 1, 3, 1]
   \<and> markers (fst (session () g_two e_first)) = [5, 1, 3, 1, 6]"
proof -
  have h1: "Suc 0 < nat (num_songs g_two)"
    by (simp add: num_songs_g_two)
  have h2: "\<not> path_exists e_first (song_path g_two (Suc 0))"
    by (simp add: song_path_g_two_1 e_first_def)
  have h3: "\<forall>h c. \<not> is_mixer c \<longrightarrow> fault e_first h c = None"
    by (simp add: e_first_def)
  have h4: "in_range (sleep_time g_two)" and h5: "in_range (real_of_int (relax_duration g_two))"
    and h6: "in_range (real_of_int (pause_duration g_two))"
    and h7: "fits_int (relax_duration g_two)" and h8: "fits_int (song_duration g_two)"
    and h9: "fits_int (pause_duration g_two)"
    using accepted_g_two by (simp_all add: accepted_def)
  have h0: "path_exists e_first (song_path g_two 0)"
    by (simp add: song_path_g_two_0 e_first_def)
  obtain j where j: "j \<le> Suc 0"
    "(\<forall>k < Suc 0. path_exists e_first (song_path g_two k)) \<longrightarrow> j = Suc 0"
    "markers (run w_other g_two e_first) = [5, 1] @ concat (replicate j [3, 1])"
    "markers (fst (session () g_two e_first)) = [5, 1] @ concat (replicate j [3, 1]) @ [6]"
    using C3_missing_asset [OF h1 h2 h3 h4 h5 h6 h7 h8 h9, of w_other "()"] by blast
  from j(2) h0 have "j = Suc 0" by simp
  with j(3,4) h1 h2 h4 h5 h6 h7 h8 h9 show ?thesis by simp
qed

text \<open>
  Claim C8. For every \<open>N \<ge> 0\<close>, in a run with \<^verbatim>\<open>num_songs = N\<close> in which every song file
  exists: the body never ends in the \<^verbatim>\<open>FileNotFoundError\<close> of line 214 (the spec's
  \<^verbatim>\<open>MissingAssetError\<close>), whatever else fails; when the run completes, that is, when its
  body raises nothing, it emits exactly \<open>N\<close> status events of a song and exactly
  \<open>N + 1\<close> status events of a relaxation; and it does complete when the waits of the
  configuration are ones \<^verbatim>\<open>time.sleep\<close> accepts, its durations are ones
  \<^verbatim>\<open>update_message\<close> can carry, and no call outside the mixer fails.
\<close>

theorem C8_event_counts:
  assumes "num_songs g = int N"
    and "\<forall>i < N. path_exists e (song_path g i)"
  shows "(\<forall>m. snd (run_try g e) \<noteq> Some (FileNotFoundError m))
       \<and> (snd (run_try g e) = None \<longrightarrow>
            length (filter is_stimulus_status (status_events (run w g e))) = N
          \<and> length (filter is_relax_status (status_events (run w g e))) = N + 1)
       \<and> ((\<forall>h c. \<not> is_mixer c \<longrightarrow> fault e h c = None)
            \<and> in_range (sleep_time g) \<and> in_range (real_of_int (relax_duration g))
            \<and> in_range (real_of_int (pause_duration g))
            \<and> fits_int (relax_duration g) \<and> fits_int (song_duration g)
            \<and> fits_int (pause_duration g)
          \<longrightarrow> snd (run_try g e) = None)"
proof (intro conjI allI impI)
  fix m
  obtain t r where c: "calls e [] (start_phase g) = (t, r)"
    by (cases "calls e [] (start_phase g)")
  have n1: "r \<noteq> Some (FileNotFoundError m)"
    using calls_not_missing [of e "[]" "start_phase g" m] by (simp add: c)
  have n2: "snd (song_loop g e t [0 ..< N]) \<noteq> Some (FileNotFoundError m)"
    using assms(2) by (intro song_loop_not_missing) simp
  show "snd (run_try g e) \<noteq> Some (FileNotFoundError m)"
    using n1 n2 by (cases r) (simp_all add: run_try_def c assms(1) case_prod_beta)
next
  assume ok: "snd (run_try g e) = None"
  note r = run_try_ok [OF ok]
  have st: "status_events (run w g e) =
      (''Relax with eyes closed'', relax_duration g)
      # concat (map (\<lambda>i. [(''Song '' @ str_nat (i + 1), song_duration g),
                          (''Relax'', pause_duration g)]) [0 ..< N])
      @ [(''Experiment Complete'', 5)]"
    using r(2) status_events_song_loop_ok [OF r(2)]
    by (simp add: run_def status_events_handler [of "fst (run_try g e)" "snd (run_try g e)", simplified]
        r(1) status_events_append assms(1))
       (simp add: start_phase_def)
  have cs: "length (filter is_stimulus_status
      (concat (map (\<lambda>i. [(''Song '' @ str_nat (i + 1), song_duration g),
                          (''Relax'', pause_duration g)]) is))) = length is" for "is"
    by (induction "is") (simp_all add: is_stimulus_status_def)
  have cr: "length (filter is_relax_status
      (concat (map (\<lambda>i. [(''Song '' @ str_nat (i + 1), song_duration g),
                          (''Relax'', pause_duration g)]) is))) = length is" for "is"
    by (induction "is") (simp_all add: is_relax_status_def)
  show "length (filter is_stimulus_status (status_events (run w g e))) = N"
    using cs [of "[0 ..< N]"] by (simp add: st is_stimulus_status_def)
  show "length (filter is_relax_status (status_events (run w g e))) = N + 1"
    using cr [of "[0 ..< N]"] by (simp add: st is_relax_status_def)
next
  assume q: "(\<forall>h c. \<not> is_mixer c \<longrightarrow> fault e h c = None)
            \<and> in_range (sleep_time g) \<and> in_range (real_of_int (relax_duration g))
            \<and> in_range (real_of_int (pause_duration g))
            \<and> fits_int (relax_duration g) \<and> fits_int (song_duration g)
            \<and> fits_int (pause_duration g)"
  then show "snd (run_try g e) = None"
    using assms by (intro run_try_quiet) (simp_all add: accepted_def)
qed

theorem C8_event_counts_witness:
  "num_songs g_two = int 2
   \<and> path_exists e_all (song_path g_two 0) \<and> path_exists e_all (song_path g_two 1)
   \<and> snd (run_try g_two e_all) = None
   \<and> length (filter is_stimulus_status (status_events (run w_other g_two e_all))) = 2
   \<and> length (filter is_relax_status (status_events (run w_other g_two e_all))) = 3"
proof -
  have h1: "num_songs g_two = int 2"
    by (simp add: num_songs_g_two)
  have h2: "\<forall>i < 2. path_exists e_all (song_path g_two i)"
    by (simp add: e_all_def)
  have q: "(\<forall>h c. \<not> is_mixer c \<longrightarrow> fault e_all h c = None)
      \<and> in_range (sleep_time g_two) \<and> in_range (real_of_int (relax_duration g_two))
      \<and> in_range (real_of_int (pause_duration g_two))
      \<and> fits_int (relax_duration g_two) \<and> fits_int (song_duration g_two)
      \<and> fits_int (pause_duration g_two)"
    using accepted_g_two by (simp add: e_all_def accepted_def)
  note t = C8_event_counts [OF h1 h2, of w_other]
  from t q have ok: "snd (run_try g_two e_all) = None"
    by blast
  with t have "length (filter is_stimulus_status (status_events (run w_other g_two e_all))) = 2
      \<and> length (filter is_relax_status (status_events (run w_other g_two e_all))) = 2 + 1"
    by blast
  with h1 ok show ?thesis by (simp add: e_all_def)
qed

text \<open>
  Claim C10. The trace of \<^verbatim>\<open>run\<close> (markers, waits, paths checked, status events) does
  not depend on the six configuration arguments given to the constructor of the worker:
  two workers built with different arguments run the same trace under the same globals.
\<close>

theorem C10_constructor_arguments_unused:
  "run (ExperimentWorker b rd sd pd n st dir) g e
     = run (ExperimentWorker b rd' sd' pd' n' st' dir') g e"
  by (simp add: run_def)

section \<open>Properties of the live view\<close>

lemma Graph_enophone: "Graph enophone ''S01'' = Inr graph0"
  by (simp add: Graph_def enophone_def graph0_def)

lemma Graph_fresh:
  "Graph bd sid = Inr self \<Longrightarrow> mains self = None \<and> sampling_rate self = get_sampling_rate bd"
  by (auto simp: Graph_def Let_def split: if_splits)

lemma shape1_flat: "shape1 (flat n) = n"
  by (simp add: flat_def shape1_def numeral_eq_Suc)

lemma update_short:
  "int (shape1 data) \<le> 3 * sampling_rate self \<Longrightarrow> update en py_str self data = (self, [], [], None)"
  by (simp add: update_def)

text \<open>The calls of a tick that passes the guard, in the order of lines 138-142.\<close>

lemma update_calls_prefix:
  "3 * sampling_rate self < int (shape1 data) \<Longrightarrow>
   prefix (map kind_of (fst (snd (update en py_str self data))))
     ((if mains self = None then [Mains] else []) @ [Qual, Ref, Filt])
   \<and> fst (snd (update en py_str self data)) \<noteq> []"
  by (auto simp: update_def Let_def case_prod_beta split: sum.split)

lemma update_calls_all:
  assumes "3 * sampling_rate self < int (shape1 data)"
    and "mains self = None \<longrightarrow> detect_mains en data = Inr m"
    and "mains self \<noteq> None \<longrightarrow> m = mains self"
    and "quality en data = Inr q"
    and "referencing en data ''mastoid'' = Inr d1"
    and "signal_filtering en d1 250 (3, 40) m = Inr d2"
  shows "fst (snd (update en py_str self data)) =
     (if mains self = None then [DetectMains data] else [])
     @ [Quality data, Referencing data ''mastoid'', SignalFiltering d1 250 (3, 40) m]"
  using assms by (auto simp: update_def Let_def case_prod_beta)

lemma update_cached:
  "mains self = Some m \<Longrightarrow>
   mains (fst (update en py_str self data)) = Some m
   \<and> filter is_detect_mains (fst (snd (update en py_str self data))) = []"
  by (auto simp: update_def Let_def case_prod_beta split: sum.split)

lemma update_first:
  assumes "mains self = None" and "3 * sampling_rate self < int (shape1 data)"
    and "detect_mains en data = Inr (Some m)"
  shows "mains (fst (update en py_str self data)) = Some m"
    and "filter is_detect_mains (fst (snd (update en py_str self data))) = [DetectMains data]"
  using assms by (auto simp: update_def Let_def case_prod_beta split: sum.split)

lemma update_raised:
  assumes "mains self = None" and "3 * sampling_rate self < int (shape1 data)"
    and "detect_mains en data = Inl x"
  shows "update en py_str self data = (self, [DetectMains data], [], Some x)"
  using assms by (simp add: update_def)

lemma ticks_Cons:
  "ticks en py_str self (d # ds) =
     (case snd (snd (snd (update en py_str self d))) of
        Some x \<Rightarrow> (fst (update en py_str self d), fst (snd (update en py_str self d)), Some x)
      | None \<Rightarrow>
          (fst (ticks en py_str (fst (update en py_str self d)) ds),
           fst (snd (update en py_str self d))
             @ fst (snd (ticks en py_str (fst (update en py_str self d)) ds)),
           snd (snd (ticks en py_str (fst (update en py_str self d)) ds))))"
  by (cases "update en py_str self d") (auto split: option.split prod.split)

lemma ticks_cached:
  "mains self = Some m \<Longrightarrow>
   mains (fst (ticks en py_str self ds)) = Some m
   \<and> filter is_detect_mains (fst (snd (ticks en py_str self ds))) = []"
proof (induction ds arbitrary: self)
  case Nil
  then show ?case by simp
next
  case (Cons d ds)
  from update_cached [OF Cons.prems, of en py_str d]
  have 1: "mains (fst (update en py_str self d)) = Some m"
    and 2: "filter is_detect_mains (fst (snd (update en py_str self d))) = []"
    by simp_all
  from Cons.IH [OF 1] 1 2 show ?case
    by (simp add: ticks_Cons del: ticks.simps split: option.split)
qed

lemma ticks_short:
  "\<forall>b \<in> set pre. int (shape1 b) \<le> 3 * sampling_rate self \<Longrightarrow>
   ticks en py_str self (pre @ rest) = ticks en py_str self rest"
  by (induction pre) (simp_all add: update_short)

lemma ticks_first:
  assumes "mains self = None" and "3 * sampling_rate self < int (shape1 d)"
    and "detect_mains en d = Inr (Some m)"
  shows "mains (fst (ticks en py_str self (d # post))) = Some m"
    and "filter is_detect_mains (fst (snd (ticks en py_str self (d # post)))) = [DetectMains d]"
proof -
  note u = update_first [OF assms, of py_str]
  note c = ticks_cached [OF u(1), of en py_str post]
  show "mains (fst (ticks en py_str self (d # post))) = Some m"
    using u c by (simp add: ticks_Cons del: ticks.simps split: option.split)
  show "filter is_detect_mains (fst (snd (ticks en py_str self (d # post)))) = [DetectMains d]"
    using u c by (simp add: ticks_Cons del: ticks.simps split: option.split)
qed

lemma ticks_at_most_once:
  "\<forall>b \<in> set ds. detect_mains en b \<noteq> Inr None \<Longrightarrow>
   length (filter is_detect_mains (fst (snd (ticks en py_str self ds)))) \<le> 1"
proof (induction ds arbitrary: self)
  case Nil
  then show ?case by simp
next
  case (Cons d ds)
  show ?case
  proof (cases "mains self")
    case (Some m)
    from ticks_cached [OF Some, of en py_str "d # ds"] show ?thesis by simp
  next
    case None
    show ?thesis
    proof (cases "3 * sampling_rate self < int (shape1 d)")
      case False
      then have "update en py_str self d = (self, [], [], None)"
        by (intro update_short) simp
      with Cons.IH [of self] Cons.prems show ?thesis by simp
    next
      case True
      show ?thesis
      proof (cases "detect_mains en d")
        case (Inl x)
        show ?thesis
          by (simp add: update_raised [OF None True Inl])
      next
        case (Inr r)
        with Cons.prems obtain m where "detect_mains en d = Inr (Some m)"
          by (cases r) auto
        from ticks_first(2) [OF None True this, of py_str ds] show ?thesis by simp
      qed
    qed
  qed
qed

text \<open>
  Claim C5, as the source has it. The guard of \<^verbatim>\<open>Graph.update\<close> is
  \<^verbatim>\<open>data.shape[1] > 3 * self.sampling_rate\<close>, a strict comparison. A tick whose buffer
  holds at most three seconds of samples (a sample count of at most three times the
  sampling rate, three seconds exactly included) returns without a call on
  \<^verbatim>\<open>enotools\<close>, without drawing, without raising and with the state unchanged. A tick
  whose buffer holds strictly more calls \<^verbatim>\<open>detect_mains\<close> if no estimate is stored yet,
  then \<^verbatim>\<open>quality\<close>, then \<^verbatim>\<open>referencing\<close>, then \<^verbatim>\<open>signal_filtering\<close>, in that order, up
  to the first of them that raises; when all of them return, the calls are
  \<^verbatim>\<open>detect_mains\<close> on the buffer (if no estimate is stored), \<^verbatim>\<open>quality\<close> on the buffer,
  \<^verbatim>\<open>referencing\<close> on the buffer in mastoid mode and \<^verbatim>\<open>signal_filtering\<close> on the
  referenced buffer with the estimate as band-stop, and nothing else.
\<close>

theorem C5_tick_guard:
  "(int (shape1 data) \<le> 3 * sampling_rate self
      \<longrightarrow> update en py_str self data = (self, [], [], None))
 \<and> (3 * sampling_rate self < int (shape1 data)
      \<longrightarrow> prefix (map kind_of (fst (snd (update en py_str self data))))
            ((if mains self = None then [Mains] else []) @ [Qual, Ref, Filt])
        \<and> fst (snd (update en py_str self data)) \<noteq> []
        \<and> ((mains self = None \<longrightarrow> detect_mains en data = Inr m)
             \<and> (mains self \<noteq> None \<longrightarrow> m = mains self)
             \<and> quality en data = Inr q
             \<and> referencing en data ''mastoid'' = Inr d1
             \<and> signal_filtering en d1 250 (3, 40) m = Inr d2
           \<longrightarrow> fst (snd (update en py_str self data)) =
                 (if mains self = None then [DetectMains data] else [])
                 @ [Quality data, Referencing data ''mastoid'',
                    SignalFiltering d1 250 (3, 40) m]))"
proof (intro conjI impI)
  assume "int (shape1 data) \<le> 3 * sampling_rate self"
  then show "update en py_str self data = (self, [], [], None)"
    by (rule update_short)
next
  assume "3 * sampling_rate self < int (shape1 data)"
  then show "prefix (map kind_of (fst (snd (update en py_str self data))))
            ((if mains self = None then [Mains] else []) @ [Qual, Ref, Filt])"
    using update_calls_prefix [of self data en py_str] by simp
next
  assume "3 * sampling_rate self < int (shape1 data)"
  then show "fst (snd (update en py_str self data)) \<noteq> []"
    using update_calls_prefix [of self data en py_str] by simp
next
  assume a: "3 * sampling_rate self < int (shape1 data)"
    and b: "(mains self = None \<longrightarrow> detect_mains en data = Inr m)
             \<and> (mains self \<noteq> None \<longrightarrow> m = mains self)
             \<and> quality en data = Inr q
             \<and> referencing en data ''mastoid'' = Inr d1
             \<and> signal_filtering en d1 250 (3, 40) m = Inr d2"
  from b have b1: "mains self = None \<longrightarrow> detect_mains en data = Inr m"
    and b2: "mains self \<noteq> None \<longrightarrow> m = mains self"
    and b3: "quality en data = Inr q"
    and b4: "referencing en data ''mastoid'' = Inr d1"
    and b5: "signal_filtering en d1 250 (3, 40) m = Inr d2"
    by simp_all
  show "fst (snd (update en py_str self data)) =
                 (if mains self = None then [DetectMains data] else [])
                 @ [Quality data, Referencing data ''mastoid'',
                    SignalFiltering d1 250 (3, 40) m]"
    by (rule update_calls_all [OF a b1 b2 b3 b4 b5])
qed

theorem C5_tick_guard_witness:
  "int (shape1 (flat 100)) \<le> 3 * sampling_rate graph0
   \<and> update en_id str0 graph0 (flat 100) = (graph0, [], [], None)
   \<and> 3 * sampling_rate graph0 < int (shape1 (flat 751))
   \<and> fst (snd (update en_id str0 graph0 (flat 751))) =
       [DetectMains (flat 751), Quality (flat 751), Referencing (flat 751) ''mastoid'',
        SignalFiltering (flat 751) 250 (3, 40) (Some ())]"
proof -
  have a: "int (shape1 (flat 100)) \<le> 3 * sampling_rate graph0"
    by (simp add: shape1_flat graph0_def)
  have b: "3 * sampling_rate graph0 < int (shape1 (flat 751))"
    by (simp add: shape1_flat graph0_def)
  have c: "mains graph0 = None"
    by (simp add: graph0_def)
  have d: "detect_mains en_id (flat 751) = Inr (Some ())"
    "quality en_id (flat 751) = Inr (map (\<lambda>r. 100) (flat 751))"
    "referencing en_id (flat 751) ''mastoid'' = Inr (flat 751)"
    "signal_filtering en_id (flat 751) 250 (3, 40) (Some ()) = Inr (flat 751)"
    by (simp_all add: en_id_def)
  from a C5_tick_guard [of "flat 100" graph0 en_id str0]
  have 1: "update en_id str0 graph0 (flat 100) = (graph0, [], [], None)"
    by blast
  from b c d
    C5_tick_guard [of "flat 751" graph0 en_id str0 "Some ()" "map (\<lambda>r. 100) (flat 751)"
      "flat 751" "flat 751"]
  have 2: "fst (snd (update en_id str0 graph0 (flat 751))) =
       [DetectMains (flat 751), Quality (flat 751), Referencing (flat 751) ''mastoid'',
        SignalFiltering (flat 751) 250 (3, 40) (Some ())]"
    by simp
  from a b 1 2 show ?thesis by simp
qed

text \<open>
  Claim C5 as the specification words it does not hold at the boundary. At 250 samples
  per second a buffer of 750 samples holds three seconds, which is not fewer than three
  seconds, and the tick still makes no conditioning call.
\<close>

theorem C5_counterexample:
  "\<not> int (shape1 (flat 750)) < 3 * sampling_rate graph0
   \<and> fst (snd (update en_id str0 graph0 (flat 750))) = []"
  by (simp add: update_def shape1_flat graph0_def)

text \<open>
  Claim C9. A live-view session starts from the state \<^verbatim>\<open>Graph.__init__\<close> builds and
  runs \<^verbatim>\<open>update\<close> over the buffers of its ticks. Let \<^verbatim>\<open>detect_mains\<close> return an estimate
  on the first buffer that passes the guard. Then it is called on that buffer and on no
  other buffer of the session, and after every later tick the stored estimate is still
  the one it returned there. Whatever the buffers of a session are, \<^verbatim>\<open>detect_mains\<close> is
  called at most once, provided that it does not answer \<^verbatim>\<open>None\<close>: the program takes a
  stored \<^verbatim>\<open>None\<close> for no estimate, and would compute again.
\<close>

theorem C9_mains_once:
  assumes "Graph bd sid = Inr self"
    and "\<forall>b \<in> set pre. int (shape1 b) \<le> 3 * get_sampling_rate bd"
    and "int (shape1 d) > 3 * get_sampling_rate bd"
    and "detect_mains en d = Inr (Some m)"
    and "\<forall>b \<in> set ds. detect_mains en b \<noteq> Inr None"
  shows "filter is_detect_mains (fst (snd (ticks en py_str self (pre @ d # post))))
           = [DetectMains d]
       \<and> (\<forall>k \<le> length post.
            mains (fst (ticks en py_str self (pre @ d # take k post))) = Some m)
       \<and> length (filter is_detect_mains (fst (snd (ticks en py_str self ds)))) \<le> 1"
proof -
  from Graph_fresh [OF assms(1)]
  have none: "mains self = None" and rate: "sampling_rate self = get_sampling_rate bd"
    by simp_all
  have pre: "ticks en py_str self (pre @ rest) = ticks en py_str self rest" for rest
    using assms(2) rate by (intro ticks_short) simp
  have long: "3 * sampling_rate self < int (shape1 d)"
    using assms(3) rate by simp
  note f = ticks_first [OF none long assms(4), of py_str]
  from f pre ticks_at_most_once [OF assms(5), of py_str self] show ?thesis
    by simp
qed

theorem C9_mains_once_witness:
  "Graph enophone ''S01'' = Inr graph0
   \<and> 3 * get_sampling_rate enophone < int (shape1 (flat 751))
   \<and> detect_mains en_id (flat 751) = Inr (Some ())
   \<and> filter is_detect_mains
       (fst (snd (ticks en_id str0 graph0
          ([flat 10, flat 750] @ flat 751 # [flat 2500, flat 2500]))))
      = [DetectMains (flat 751)]
   \<and> mains (fst (ticks en_id str0 graph0
        ([flat 10, flat 750] @ flat 751 # [flat 2500, flat 2500]))) = Some ()
   \<and> length (filter is_detect_mains
       (fst (snd (ticks en_id str0 graph0 [flat 751, flat 752])))) \<le> 1"
proof -
  have h1: "Graph enophone ''S01'' = Inr (graph0 :: unit graph)"
    by (rule Graph_enophone)
  have h2: "\<forall>b \<in> set [flat 10, flat 750]. int (shape1 b) \<le> 3 * get_sampling_rate enophone"
    by (simp add: shape1_flat enophone_def)
  have h3: "3 * get_sampling_rate enophone < int (shape1 (flat 751))"
    by (simp add: shape1_flat enophone_def)
  have h4: "detect_mains en_id (flat 751) = Inr (Some ())"
    by (simp add: en_id_def)
  have h5: "\<forall>b \<in> set [flat 751, flat 752]. detect_mains en_id b \<noteq> Inr None"
    by (simp add: en_id_def)
  note t = C9_mains_once [OF h1 h2 h3 h4 h5, of str0 "[flat 2500, flat 2500]"]
  from t have a: "filter is_detect_mains
       (fst (snd (ticks en_id str0 graph0
          ([flat 10, flat 750] @ flat 751 # [flat 2500, flat 2500]))))
      = [DetectMains (flat 751)]"
    by blast
  from t have "\<forall>k \<le> length [flat 2500, flat 2500 :: buffer].
       mains (fst (ticks en_id str0 graph0
         ([flat 10, flat 750] @ flat 751 # take k [flat 2500, flat 2500]))) = Some ()"
    by blast
  from this [rule_format, of 2]
  have b: "mains (fst (ticks en_id str0 graph0
        ([flat 10, flat 750] @ flat 751 # [flat 2500, flat 2500]))) = Some ()"
    by simp
  from t have c: "length (filter is_detect_mains
       (fst (snd (ticks en_id str0 graph0 [flat 751, flat 752])))) \<le> 1"
    by blast
  from h1 h3 h4 a b c show ?thesis by blast
qed

section \<open>Properties of finalization\<close>

lemma getitems_present:
  "\<forall>ch \<in> set chs. ch < length data \<Longrightarrow> getitems data chs = Inr (map (\<lambda>ch. data ! ch) chs)"
  by (induction chs) (simp_all add: getitem_def)

lemma getitems_absent:
  "\<not> (\<forall>ch \<in> set chs. ch < length data) \<Longrightarrow> getitems data chs = Inl IndexError"
  by (induction chs) (auto simp: getitem_def split: sum.split)

lemma strftimes_ok:
  "\<forall>t \<in> set ts. \<exists>s. f t = Inr s \<Longrightarrow> strftimes f ts = Inr (map (\<lambda>t. projr (f t)) ts)"
  by (induction ts) auto

text \<open>On rows of one length \<^verbatim>\<open>zip\<close> yields a tuple for every column, in order.\<close>

lemma zip_rows_rect:
  "length ts = n \<Longrightarrow> length hs = n \<Longrightarrow> length ms = n \<Longrightarrow> \<forall>r \<in> set eeg. length r = n \<Longrightarrow>
   zip_rows ts hs eeg ms = map (\<lambda>j. (ts ! j, hs ! j, map (\<lambda>r. r ! j) eeg, ms ! j)) [0 ..< n]"
proof (induction ts hs eeg ms arbitrary: n rule: zip_rows.induct)
  case (1 t ts h hs eeg m ms)
  then obtain k where n: "n = Suc k" by (cases n) auto
  with 1 have ne: "[] \<notin> set eeg" by auto
  have hd: "map hd eeg = map (\<lambda>r. r ! 0) eeg"
  proof (intro map_cong refl)
    fix x assume "x \<in> set eeg"
    with ne have "x \<noteq> []" by auto
    then show "hd x = x ! 0" by (rule hd_conv_nth)
  qed
  have tl: "map (\<lambda>r. r ! j) (map tl eeg) = map (\<lambda>r. r ! Suc j) eeg" if "j < k" for j
    using ne that 1 n by (auto simp: nth_tl)
  have IH: "zip_rows ts hs (map tl eeg) ms =
      map (\<lambda>j. (ts ! j, hs ! j, map (\<lambda>r. r ! j) (map tl eeg), ms ! j)) [0 ..< k]"
    using 1 n ne by (intro "1.IH") auto
  have "map (\<lambda>j. ((t # ts) ! j, (h # hs) ! j, map (\<lambda>r. r ! j) eeg, (m # ms) ! j)) [0 ..< Suc k]
      = (t, h, map (\<lambda>r. r ! 0) eeg, m)
        # map (\<lambda>j. (ts ! j, hs ! j, map (\<lambda>r. r ! Suc j) eeg, ms ! j)) [0 ..< k]"
    by (simp add: upt_rec [of 0 "Suc k"] map_Suc_upt [symmetric] del: upt_Suc)
  with IH ne hd tl n show ?case by simp
qed auto

lemma export_rows_rect:
  assumes "\<forall>r \<in> set D. length r = n"
    and "mk < length D" and "tc < length D" and "\<forall>ch \<in> set chs. ch < length D"
  shows "zip_rows (D ! tc) (map human (D ! tc)) (map (\<lambda>ch. D ! ch) chs) (map astype_int (D ! mk))
       = map (\<lambda>j. (D ! tc ! j, human (D ! tc ! j), map (\<lambda>ch. D ! ch ! j) chs,
                   astype_int (D ! mk ! j))) [0 ..< n]"
proof -
  have len: "length (D ! k) = n" if "k < length D" for k
    using assms(1) that by simp
  have "zip_rows (D ! tc) (map human (D ! tc)) (map (\<lambda>ch. D ! ch) chs) (map astype_int (D ! mk))
      = map (\<lambda>j. ((D ! tc) ! j, map human (D ! tc) ! j,
                  map (\<lambda>r. r ! j) (map (\<lambda>ch. D ! ch) chs),
                  map astype_int (D ! mk) ! j)) [0 ..< n]"
    using assms(2,3,4) by (intro zip_rows_rect) (simp_all add: len)
  also have "\<dots> = map (\<lambda>j. (D ! tc ! j, human (D ! tc ! j), map (\<lambda>ch. D ! ch ! j) chs,
                   astype_int (D ! mk ! j))) [0 ..< n]"
    using assms(2,3) by (intro map_cong refl) (simp add: len comp_def)
  finally show ?thesis .
qed

text \<open>The outcomes of finalization.\<close>

lemma experiment_finished_absent:
  assumes "conditioned en raw = Inr D"
    and "\<not> get_marker_channel bd < length D \<or> \<not> get_timestamp_channel bd < length D"
  shows "experiment_finished en w bd sid raw = failed IndexError"
  using assms by (auto simp: experiment_finished_def getitem_def)

lemma experiment_finished_not_written:
  assumes "conditioned en raw = Inr D"
    and "\<not> (get_marker_channel bd < length D \<and> get_timestamp_channel bd < length D
            \<and> (\<forall>ch \<in> set (get_eeg_channels bd). ch < length D))"
  shows "\<exists>x. experiment_finished en w bd sid raw = failed x"
proof (cases "get_marker_channel bd < length D \<and> get_timestamp_channel bd < length D")
  case False
  then show ?thesis
    using experiment_finished_absent [OF assms(1), of bd w sid] by blast
next
  case True
  with assms(2) have "getitems D (get_eeg_channels bd) = Inl IndexError"
    by (intro getitems_absent) simp
  with True assms(1) show ?thesis
    by (auto simp: experiment_finished_def getitem_def split: sum.split)
qed

lemma experiment_finished_present:
  assumes "conditioned en raw = Inr D"
    and "get_marker_channel bd < length D"
    and "get_timestamp_channel bd < length D"
    and "\<forall>ch \<in> set (get_eeg_channels bd). ch < length D"
    and "\<forall>t \<in> set (D ! get_timestamp_channel bd). \<exists>s. strftime w t = Inr s"
  shows "experiment_finished en w bd sid raw =
     (let f = \<lparr>csv_name = sid @ ''_eeg_data.csv'',
               csv_header = [''Unix Timestamp'', ''Human Readable Timestamp'']
                 @ map (\<lambda>ch. ''EEG Channel '' @ str_nat ch) (get_eeg_channels bd)
                 @ [''Marker''],
               csv_rows = zip_rows (D ! get_timestamp_channel bd)
                            (map (\<lambda>t. projr (strftime w t)) (D ! get_timestamp_channel bd))
                            (map (\<lambda>ch. D ! ch) (get_eeg_channels bd))
                            (map astype_int (D ! get_marker_channel bd))\<rparr>;
          m = \<lparr>fif_name = sid @ ''_eeg_data.raw.fif'',
               fif_data = map (map (\<lambda>x. x / 1000000))
                            (map (\<lambda>ch. D ! ch) (get_eeg_channels bd))
                          @ [D ! get_marker_channel bd],
               ch_names = get_eeg_names bd @ [''stim''],
               ch_types = replicate (length (get_eeg_channels bd)) ''eeg'' @ [''stim''],
               sfreq = get_sampling_rate bd\<rparr>
      in case csv_fault w f of
           Some x \<Rightarrow> failed x
         | None \<Rightarrow>
             if sfreq m \<le> 0 \<or> length (ch_types m) \<noteq> length (ch_names m)
             then \<lparr>csv = Some f, fif = None, raised = Some ValueError\<rparr>
             else (case mne_fault w m of
                     Some x \<Rightarrow> \<lparr>csv = Some f, fif = None, raised = Some x\<rparr>
                   | None \<Rightarrow> \<lparr>csv = Some f, fif = Some m, raised = None\<rparr>))"
  using assms(2,3)
  by (simp add: experiment_finished_def assms(1) getitem_def getitems_present [OF assms(4)]
      strftimes_ok [OF assms(5)])

lemma written_csv:
  "csv_fault w f = None \<Longrightarrow>
   csv (case csv_fault w f of
          Some x \<Rightarrow> failed x
        | None \<Rightarrow>
            if c then \<lparr>csv = Some f, fif = None, raised = Some ValueError\<rparr>
            else (case mne_fault w m of
                    Some x \<Rightarrow> \<lparr>csv = Some f, fif = None, raised = Some x\<rparr>
                  | None \<Rightarrow> \<lparr>csv = Some f, fif = Some m, raised = None\<rparr>)) = Some f"
  by (simp split: option.split)

lemma written_both:
  "csv_fault w f = None \<Longrightarrow> \<not> c \<Longrightarrow> mne_fault w m = None \<Longrightarrow>
   (case csv_fault w f of
      Some x \<Rightarrow> failed x
    | None \<Rightarrow>
        if c then \<lparr>csv = Some f, fif = None, raised = Some ValueError\<rparr>
        else (case mne_fault w m of
                Some x \<Rightarrow> \<lparr>csv = Some f, fif = None, raised = Some x\<rparr>
              | None \<Rightarrow> \<lparr>csv = Some f, fif = Some m, raised = None\<rparr>))
     = \<lparr>csv = Some f, fif = Some m, raised = None\<rparr>"
  by simp

lemma conditioned_en_id: "conditioned en_id raw = Inr raw"
  by (simp add: conditioned_def en_id_def)

text \<open>
  Claim C6. Let the conditioning return the buffer \<open>D\<close>, a 2-D array whose rows have
  the length \<open>n\<close>, the sample count; let the marker row, the timestamp row and the EEG
  rows of the board be in it, let every timestamp have a clock text, and let the file
  system take the file. Then the CSV file is written under
  \<^verbatim>\<open><subject_id>_eeg_data.csv\<close> with the header \<^verbatim>\<open>Unix Timestamp\<close>,
  \<^verbatim>\<open>Human Readable Timestamp\<close>, one \<^verbatim>\<open>EEG Channel <ch>\<close> per EEG channel, \<^verbatim>\<open>Marker\<close>, and
  with exactly \<open>n\<close> data rows: row \<open>j\<close> is the timestamp of sample \<open>j\<close>, its clock
  text, the conditioned value of every EEG channel at sample \<open>j\<close> in the order of the
  channels, and the marker of sample \<open>j\<close> as an integer. The rows are in the order of
  the samples in the buffer, which is the order of acquisition.
\<close>

theorem C6_csv_rows:
  assumes "conditioned en raw = Inr D"
    and "\<forall>r \<in> set D. length r = n"
    and "get_marker_channel bd < length D"
    and "get_timestamp_channel bd < length D"
    and "\<forall>ch \<in> set (get_eeg_channels bd). ch < length D"
    and "\<forall>t \<in> set (D ! get_timestamp_channel bd). \<exists>s. strftime w t = Inr s"
    and "\<forall>f. csv_name f = sid @ ''_eeg_data.csv'' \<longrightarrow> csv_fault w f = None"
  shows "\<exists>f. csv (experiment_finished en w bd sid raw) = Some f
       \<and> csv_name f = sid @ ''_eeg_data.csv''
       \<and> csv_header f = [''Unix Timestamp'', ''Human Readable Timestamp'']
           @ map (\<lambda>ch. ''EEG Channel '' @ str_nat ch) (get_eeg_channels bd) @ [''Marker'']
       \<and> csv_rows f =
           map (\<lambda>j. (D ! get_timestamp_channel bd ! j,
                     projr (strftime w (D ! get_timestamp_channel bd ! j)),
                     map (\<lambda>ch. D ! ch ! j) (get_eeg_channels bd),
                     astype_int (D ! get_marker_channel bd ! j)))
               [0 ..< n]
       \<and> length (csv_rows f) = n
       \<and> n = shape1 D"
proof -
  have s: "n = shape1 D"
    using assms(2,3) by (cases D) (auto simp: shape1_def)
  note rows = export_rows_rect [OF assms(2,3,4,5), of "\<lambda>t. projr (strftime w t)"]
  note ef = experiment_finished_present [OF assms(1,3,4,5,6), of sid]
  let ?f = "\<lparr>csv_name = sid @ ''_eeg_data.csv'',
               csv_header = [''Unix Timestamp'', ''Human Readable Timestamp'']
                 @ map (\<lambda>ch. ''EEG Channel '' @ str_nat ch) (get_eeg_channels bd)
                 @ [''Marker''],
               csv_rows = zip_rows (D ! get_timestamp_channel bd)
                            (map (\<lambda>t. projr (strftime w t)) (D ! get_timestamp_channel bd))
                            (map (\<lambda>ch. D ! ch) (get_eeg_channels bd))
                            (map astype_int (D ! get_marker_channel bd))\<rparr>"
  have ok: "csv_fault w ?f = None"
    using assms(7) by simp
  have "csv (experiment_finished en w bd sid raw) = Some ?f"
    unfolding ef Let_def by (rule written_csv [OF ok])
  with rows s show ?thesis by simp
qed

theorem C6_csv_rows_witness:
  "(\<exists>f. csv (experiment_finished en_id io0 small_board ''S01'' square) = Some f
      \<and> csv_header f = [''Unix Timestamp'', ''Human Readable Timestamp'',
                        ''EEG Channel 0'', ''EEG Channel 1'', ''Marker'']
      \<and> csv_rows f = [(10, ''1970-01-01 00:00:10.000000'', [1000000, 3], 5),
                      (20, ''1970-01-01 00:00:20.000000'', [2000000, 4], 0)])"
proof -
  have h0: "conditioned en_id square = Inr square"
    by (rule conditioned_en_id)
  have h1: "\<forall>r \<in> set square. length r = 2"
    by (simp add: square_def)
  have h2: "get_marker_channel small_board < length square"
    by (simp add: small_board_def square_def)
  have h3: "get_timestamp_channel small_board < length square"
    by (simp add: small_board_def square_def)
  have h4: "\<forall>ch \<in> set (get_eeg_channels small_board). ch < length square"
    by (simp add: small_board_def square_def)
  have h5: "\<forall>t \<in> set (square ! get_timestamp_channel small_board). \<exists>s. strftime io0 t = Inr s"
    by (simp add: io0_def)
  have h6: "\<forall>f. csv_name f = ''S01'' @ ''_eeg_data.csv'' \<longrightarrow> csv_fault io0 f = None"
    by (simp add: io0_def)
  have u: "[0 ..< 2] = [0, Suc 0]"
    by (simp add: numeral_2_eq_2)
  from C6_csv_rows [OF h0 h1 h2 h3 h4 h5 h6]
  have "\<exists>f. csv (experiment_finished en_id io0 small_board ''S01'' square) = Some f
      \<and> csv_name f = ''S01_eeg_data.csv''
      \<and> csv_header f = [''Unix Timestamp'', ''Human Readable Timestamp'',
                          ''EEG Channel 0'', ''EEG Channel 1'', ''Marker'']
      \<and> csv_rows f = [(10, ''1970-01-01 00:00:10.000000'', [1000000, 3], 5),
                      (20, ''1970-01-01 00:00:20.000000'', [2000000, 4], 0)]
      \<and> length (csv_rows f) = 2
      \<and> 2 = shape1 square"
    by (simp add: small_board_def square_def io0_def human0_def astype_int_def u
        str_nat.simps digit_char_def)
  then show ?thesis by blast
qed

text \<open>
  Claim C7. Under the conditions of C6, let the board have a name for each of its EEG
  channels and a positive sampling rate, and let MNE take the file. Then the FIF file is
  written under \<^verbatim>\<open><subject_id>_eeg_data.raw.fif\<close>. Its data are the EEG rows with every
  value divided by 1000000, followed by the marker row as it is in the buffer; its
  channel types are \<^verbatim>\<open>eeg\<close> for every EEG channel and \<^verbatim>\<open>stim\<close> once, for the last row;
  its channel names are the EEG names of the board and \<^verbatim>\<open>stim\<close>; its sampling rate is
  the one the driver reports for the board. Every row of its data has the \<open>n\<close> samples of
  the buffer.
\<close>

theorem C7_fif_container:
  assumes "conditioned en raw = Inr D"
    and "\<forall>r \<in> set D. length r = n"
    and "get_marker_channel bd < length D"
    and "get_timestamp_channel bd < length D"
    and "\<forall>ch \<in> set (get_eeg_channels bd). ch < length D"
    and "\<forall>t \<in> set (D ! get_timestamp_channel bd). \<exists>s. strftime w t = Inr s"
    and "\<forall>f. csv_name f = sid @ ''_eeg_data.csv'' \<longrightarrow> csv_fault w f = None"
    and "length (get_eeg_names bd) = length (get_eeg_channels bd)"
    and "0 < get_sampling_rate bd"
    and "\<forall>f. fif_name f = sid @ ''_eeg_data.raw.fif'' \<longrightarrow> mne_fault w f = None"
  shows "\<exists>f. fif (experiment_finished en w bd sid raw) = Some f
       \<and> fif_name f = sid @ ''_eeg_data.raw.fif''
       \<and> fif_data f = map (\<lambda>ch. map (\<lambda>x. x / 1000000) (D ! ch)) (get_eeg_channels bd)
                      @ [D ! get_marker_channel bd]
       \<and> ch_types f = replicate (length (get_eeg_channels bd)) ''eeg'' @ [''stim'']
       \<and> length (filter (\<lambda>t. t = ''stim'') (ch_types f)) = 1
       \<and> ch_names f = get_eeg_names bd @ [''stim'']
       \<and> length (fif_data f) = length (get_eeg_channels bd) + 1
       \<and> (\<forall>r \<in> set (fif_data f). length r = n)
       \<and> last (fif_data f) = D ! get_marker_channel bd
       \<and> sfreq f = get_sampling_rate bd
       \<and> raised (experiment_finished en w bd sid raw) = None"
proof -
  note ef = experiment_finished_present [OF assms(1,3,4,5,6), of sid]
  have len: "length (D ! k) = n" if "k < length D" for k
    using assms(2) that by simp
  let ?f = "\<lparr>csv_name = sid @ ''_eeg_data.csv'',
               csv_header = [''Unix Timestamp'', ''Human Readable Timestamp'']
                 @ map (\<lambda>ch. ''EEG Channel '' @ str_nat ch) (get_eeg_channels bd)
                 @ [''Marker''],
               csv_rows = zip_rows (D ! get_timestamp_channel bd)
                            (map (\<lambda>t. projr (strftime w t)) (D ! get_timestamp_channel bd))
                            (map (\<lambda>ch. D ! ch) (get_eeg_channels bd))
                            (map astype_int (D ! get_marker_channel bd))\<rparr>"
  let ?m = "\<lparr>fif_name = sid @ ''_eeg_data.raw.fif'',
               fif_data = map (map (\<lambda>x. x / 1000000))
                            (map (\<lambda>ch. D ! ch) (get_eeg_channels bd))
                          @ [D ! get_marker_channel bd],
               ch_names = get_eeg_names bd @ [''stim''],
               ch_types = replicate (length (get_eeg_channels bd)) ''eeg'' @ [''stim''],
               sfreq = get_sampling_rate bd\<rparr>"
  have ok1: "csv_fault w ?f = None"
    using assms(7) by simp
  have ok2: "mne_fault w ?m = None"
    using assms(10) by simp
  have c: "\<not> (sfreq ?m \<le> 0 \<or> length (ch_types ?m) \<noteq> length (ch_names ?m))"
    using assms(8,9) by simp
  have r: "experiment_finished en w bd sid raw = \<lparr>csv = Some ?f, fif = Some ?m, raised = None\<rparr>"
    unfolding ef Let_def by (rule written_both [OF ok1 c ok2])
  have stim: "filter (\<lambda>t. t = ''stim'') (replicate k ''eeg'') = []" for k
    by (induction k) simp_all
  have rows: "\<forall>r \<in> set (fif_data ?m). length r = n"
    using assms(3,5) by (auto simp: len)
  from stim rows show ?thesis
    by (simp add: r comp_def)
qed

theorem C7_fif_container_witness:
  "(\<exists>f. fif (experiment_finished en_id io0 small_board ''S01'' square) = Some f
      \<and> fif_data f = [[1, 2], [3 / 1000000, 4 / 1000000], [5, 0]]
      \<and> ch_types f = [''eeg'', ''eeg'', ''stim'']
      \<and> ch_names f = [''A2'', ''A1'', ''stim'']
      \<and> sfreq f = 250)"
proof -
  have h0: "conditioned en_id square = Inr square"
    by (rule conditioned_en_id)
  have h1: "\<forall>r \<in> set square. length r = 2"
    by (simp add: square_def)
  have h2: "get_marker_channel small_board < length square"
    by (simp add: small_board_def square_def)
  have h3: "get_timestamp_channel small_board < length square"
    by (simp add: small_board_def square_def)
  have h4: "\<forall>ch \<in> set (get_eeg_channels small_board). ch < length square"
    by (simp add: small_board_def square_def)
  have h5: "\<forall>t \<in> set (square ! get_timestamp_channel small_board). \<exists>s. strftime io0 t = Inr s"
    by (simp add: io0_def)
  have h6: "\<forall>f. csv_name f = ''S01'' @ ''_eeg_data.csv'' \<longrightarrow> csv_fault io0 f = None"
    by (simp add: io0_def)
  have h7: "length (get_eeg_names small_board) = length (get_eeg_channels small_board)"
    by (simp add: small_board_def)
  have h8: "0 < get_sampling_rate small_board"
    by (simp add: small_board_def)
  have h9: "\<forall>f. fif_name f = ''S01'' @ ''_eeg_data.raw.fif'' \<longrightarrow> mne_fault io0 f = None"
    by (simp add: io0_def)
  from C7_fif_container [OF h0 h1 h2 h3 h4 h5 h6 h7 h8 h9]
  have "\<exists>f. fif (experiment_finished en_id io0 small_board ''S01'' square) = Some f
      \<and> fif_name f = ''S01_eeg_data.raw.fif''
      \<and> fif_data f = [[1, 2], [3 / 1000000, 4 / 1000000], [5, 0]]
      \<and> ch_types f = [''eeg'', ''eeg'', ''stim'']
      \<and> length (filter (\<lambda>t. t = ''stim'') (ch_types f)) = 1
      \<and> ch_names f = [''A2'', ''A1'', ''stim'']
      \<and> length (fif_data f) = 3
      \<and> (\<forall>r \<in> set (fif_data f). length r = 2)
      \<and> last (fif_data f) = [5, 0]
      \<and> sfreq f = 250
      \<and> raised (experiment_finished en_id io0 small_board ''S01'' square) = None"
    by (simp add: small_board_def square_def numeral_2_eq_2 numeral_3_eq_3)
  then show ?thesis by blast
qed

text \<open>
  Claim C4, as the source has it. \<^verbatim>\<open>experiment_finished\<close> has no validation step and
  raises no error of its own. Let the conditioning return \<open>D\<close>, a 2-D array whose rows
  have the length \<open>n\<close>. When the marker channel or the timestamp channel of the board is
  not a row of \<open>D\<close>, the subscript \<^verbatim>\<open>data[channel]\<close> itself raises \<^verbatim>\<open>IndexError\<close> on line
  300 or 304; when one of these or an EEG channel is not a row of \<open>D\<close>, the slot ends
  in an exception before a file is opened, and nothing is written. When all of them are
  rows of \<open>D\<close> they have the same length, as rows of one array, nothing compares their
  lengths, and the CSV file is written with \<open>n\<close> rows as soon as the timestamps have a
  clock text and the file system takes the file.
\<close>

theorem C4_no_validation:
  assumes "conditioned en raw = Inr D"
    and "\<forall>r \<in> set D. length r = n"
  shows "(\<not> get_marker_channel bd < length D \<or> \<not> get_timestamp_channel bd < length D
          \<longrightarrow> experiment_finished en w bd sid raw
                = \<lparr>csv = None, fif = None, raised = Some IndexError\<rparr>)
       \<and> (\<not> (get_marker_channel bd < length D \<and> get_timestamp_channel bd < length D
               \<and> (\<forall>ch \<in> set (get_eeg_channels bd). ch < length D))
          \<longrightarrow> csv (experiment_finished en w bd sid raw) = None
              \<and> fif (experiment_finished en w bd sid raw) = None
              \<and> raised (experiment_finished en w bd sid raw) \<noteq> None)
       \<and> (get_marker_channel bd < length D \<and> get_timestamp_channel bd < length D
            \<and> (\<forall>ch \<in> set (get_eeg_channels bd). ch < length D)
          \<longrightarrow> length (D ! get_marker_channel bd) = n
              \<and> length (D ! get_timestamp_channel bd) = n
              \<and> (\<forall>ch \<in> set (get_eeg_channels bd). length (D ! ch) = n)
              \<and> ((\<forall>t \<in> set (D ! get_timestamp_channel bd). \<exists>s. strftime w t = Inr s)
                   \<and> (\<forall>f. csv_name f = sid @ ''_eeg_data.csv'' \<longrightarrow> csv_fault w f = None)
                 \<longrightarrow> (\<exists>f. csv (experiment_finished en w bd sid raw) = Some f
                        \<and> length (csv_rows f) = n)))"
proof (intro conjI impI)
  assume "\<not> get_marker_channel bd < length D \<or> \<not> get_timestamp_channel bd < length D"
  then show "experiment_finished en w bd sid raw
      = \<lparr>csv = None, fif = None, raised = Some IndexError\<rparr>"
    using experiment_finished_absent [OF assms(1), of bd w sid] by (simp add: failed_def)
next
  assume a: "\<not> (get_marker_channel bd < length D \<and> get_timestamp_channel bd < length D
               \<and> (\<forall>ch \<in> set (get_eeg_channels bd). ch < length D))"
  from experiment_finished_not_written [OF assms(1) a, of w sid]
  obtain x where x: "experiment_finished en w bd sid raw = failed x"
    by blast
  show "csv (experiment_finished en w bd sid raw) = None"
    by (simp add: x failed_def)
  show "fif (experiment_finished en w bd sid raw) = None"
    by (simp add: x failed_def)
  show "raised (experiment_finished en w bd sid raw) \<noteq> None"
    by (simp add: x failed_def)
next
  assume p: "get_marker_channel bd < length D \<and> get_timestamp_channel bd < length D
            \<and> (\<forall>ch \<in> set (get_eeg_channels bd). ch < length D)"
  from p assms(2) show "length (D ! get_marker_channel bd) = n" by simp
  from p assms(2) show "length (D ! get_timestamp_channel bd) = n" by simp
  from p assms(2) show "\<forall>ch \<in> set (get_eeg_channels bd). length (D ! ch) = n" by simp
next
  assume p: "get_marker_channel bd < length D \<and> get_timestamp_channel bd < length D
            \<and> (\<forall>ch \<in> set (get_eeg_channels bd). ch < length D)"
    and q: "(\<forall>t \<in> set (D ! get_timestamp_channel bd). \<exists>s. strftime w t = Inr s)
            \<and> (\<forall>f. csv_name f = sid @ ''_eeg_data.csv'' \<longrightarrow> csv_fault w f = None)"
  from p have p1: "get_marker_channel bd < length D"
    and p2: "get_timestamp_channel bd < length D"
    and p3: "\<forall>ch \<in> set (get_eeg_channels bd). ch < length D"
    by simp_all
  from q have q1: "\<forall>t \<in> set (D ! get_timestamp_channel bd). \<exists>s. strftime w t = Inr s"
    and q2: "\<forall>f. csv_name f = sid @ ''_eeg_data.csv'' \<longrightarrow> csv_fault w f = None"
    by simp_all
  note rows = export_rows_rect [OF assms(2) p1 p2 p3, of "\<lambda>t. projr (strftime w t)"]
  note ef = experiment_finished_present [OF assms(1) p1 p2 p3 q1, of sid]
  let ?f = "\<lparr>csv_name = sid @ ''_eeg_data.csv'',
               csv_header = [''Unix Timestamp'', ''Human Readable Timestamp'']
                 @ map (\<lambda>ch. ''EEG Channel '' @ str_nat ch) (get_eeg_channels bd)
                 @ [''Marker''],
               csv_rows = zip_rows (D ! get_timestamp_channel bd)
                            (map (\<lambda>t. projr (strftime w t)) (D ! get_timestamp_channel bd))
                            (map (\<lambda>ch. D ! ch) (get_eeg_channels bd))
                            (map astype_int (D ! get_marker_channel bd))\<rparr>"
  have ok: "csv_fault w ?f = None"
    using q2 by simp
  have "csv (experiment_finished en w bd sid raw) = Some ?f"
    unfolding ef Let_def by (rule written_csv [OF ok])
  with rows show "\<exists>f. csv (experiment_finished en w bd sid raw) = Some f
                        \<and> length (csv_rows f) = n"
    by simp
qed

theorem C4_no_validation_witness:
  "conditioned en_id square = Inr square
   \<and> get_marker_channel small_board < length square
   \<and> (\<exists>f. csv (experiment_finished en_id io0 small_board ''S01'' square) = Some f
        \<and> length (csv_rows f) = 2)
   \<and> conditioned en_id (take 2 square) = Inr (take 2 square)
   \<and> \<not> get_timestamp_channel small_board < length (take 2 square)
   \<and> experiment_finished en_id io0 small_board ''S01'' (take 2 square)
       = \<lparr>csv = None, fif = None, raised = Some IndexError\<rparr>"
proof -
  have c: "conditioned en_id square = Inr square"
    "conditioned en_id (take 2 square) = Inr (take 2 square)"
    by (rule conditioned_en_id)+
  have r: "\<forall>r \<in> set square. length r = 2"
    by (simp add: square_def)
  have p: "get_marker_channel small_board < length square
      \<and> get_timestamp_channel small_board < length square
      \<and> (\<forall>ch \<in> set (get_eeg_channels small_board). ch < length square)"
    by (simp add: small_board_def square_def)
  have q: "(\<forall>t \<in> set (square ! get_timestamp_channel small_board). \<exists>s. strftime io0 t = Inr s)
      \<and> (\<forall>f. csv_name f = ''S01'' @ ''_eeg_data.csv'' \<longrightarrow> csv_fault io0 f = None)"
    by (simp add: io0_def)
  have r': "\<forall>r \<in> set (take 2 square). length r = 2"
    by (simp add: square_def numeral_2_eq_2)
  have a: "\<not> get_timestamp_channel small_board < length (take 2 square)"
    by (simp add: small_board_def square_def)
  from C4_no_validation [OF c(1) r, of small_board io0 "''S01''"] p q
  have 1: "\<exists>f. csv (experiment_finished en_id io0 small_board ''S01'' square) = Some f
        \<and> length (csv_rows f) = 2"
    by blast
  from C4_no_validation [OF c(2) r', of small_board io0 "''S01''"] a
  have 2: "experiment_finished en_id io0 small_board ''S01'' (take 2 square)
       = \<lparr>csv = None, fif = None, raised = Some IndexError\<rparr>"
    by blast
  from c p 1 a 2 show ?thesis by blast
qed

text \<open>
  Claim C4 as the specification words it does not hold. On a recording without the
  marker row nothing validates the buffer and no integrity error is raised: what ends
  finalization is the \<^verbatim>\<open>IndexError\<close> of the subscript on line 300.
\<close>

theorem C4_counterexample:
  "conditioned en_id three_rows = Inr three_rows
   \<and> length three_rows = 3
   \<and> get_marker_channel small_board = 3
   \<and> raised (experiment_finished en_id io0 small_board ''S01'' three_rows) = Some IndexError"
  by (simp add: experiment_finished_def conditioned_en_id small_board_def three_rows_def
      getitem_def failed_def)

end
